theory Spec2Isabelle
  imports Main "HOL-Library.Word"
begin

unbundle bit_operations_syntax

section \<open>Types and constants of LightWeightMQTTExample.c\<close>

type_synonym uint8_t = "8 word"
type_synonym uint16_t = "16 word"
type_synonym uint32_t = "32 word"

text \<open>
  \<open>Socket_t\<close> is a pointer type of FreeRTOS+TCP. The program only compares a handle
  with the null pointer and with \<open>FREERTOS_INVALID_SOCKET\<close> (all bits set), and hands
  it back to the transport; it is a 32-bit value here.
\<close>

type_synonym Socket_t = "32 word"

definition FREERTOS_INVALID_SOCKET :: Socket_t where
  "FREERTOS_INVALID_SOCKET = NOT 0"

text \<open>
  The status codes of \<open>mqtt_lightweight.h\<close> and \<open>retry_utils.h\<close>. The program names
  three MQTT codes; every other code of the library is \<open>MQTTOtherStatus\<close>.
\<close>

datatype MQTTStatus_t = MQTTSuccess | MQTTServerRefused | MQTTNoDataAvailable | MQTTOtherStatus

datatype RetryUtilsStatus_t = RetryUtilsSuccess | RetryUtilsRetriesExhausted

datatype MQTTQoS_t = MQTTQoS0 | MQTTQoS1 | MQTTQoS2

text \<open>
  The first byte of an MQTT 3.1.1 control packet, as \<open>mqtt_lightweight.h\<close> names them.
\<close>

definition MQTT_PACKET_TYPE_CONNACK :: uint8_t where
  "MQTT_PACKET_TYPE_CONNACK = 0x20"

definition MQTT_PACKET_TYPE_PUBLISH :: uint8_t where
  "MQTT_PACKET_TYPE_PUBLISH = 0x30"

definition MQTT_PACKET_TYPE_SUBACK :: uint8_t where
  "MQTT_PACKET_TYPE_SUBACK = 0x90"

definition MQTT_PACKET_TYPE_UNSUBACK :: uint8_t where
  "MQTT_PACKET_TYPE_UNSUBACK = 0xB0"

definition MQTT_PACKET_TYPE_PINGRESP :: uint8_t where
  "MQTT_PACKET_TYPE_PINGRESP = 0xD0"

definition mqttexampleTOPIC_COUNT :: nat where
  "mqttexampleTOPIC_COUNT = 1"

definition mqttexampleSHARED_BUFFER_SIZE :: nat where
  "mqttexampleSHARED_BUFFER_SIZE = 500"

definition mqttexampleMAX_SOCKET_SHUTDOWN_LOOPS :: int where
  "mqttexampleMAX_SOCKET_SHUTDOWN_LOOPS = 3"

definition ulMaxPublishCount :: nat where
  "ulMaxPublishCount = 5"

definition mqttexampleKEEP_ALIVE_TIMEOUT_SECONDS :: nat where
  "mqttexampleKEEP_ALIVE_TIMEOUT_SECONDS = 10"

text \<open>The delays, in milliseconds.\<close>

definition mqttexampleKEEP_ALIVE_DELAY :: nat where
  "mqttexampleKEEP_ALIVE_DELAY = (mqttexampleKEEP_ALIVE_TIMEOUT_SECONDS div 4) * 1000"

definition mqttexampleDELAY_BETWEEN_DEMO_ITERATIONS :: nat where
  "mqttexampleDELAY_BETWEEN_DEMO_ITERATIONS = 5000"

definition xShortDelay :: nat where
  "xShortDelay = 250"

text \<open>The bytes of the string literal \<open>mqttexampleMESSAGE\<close>.\<close>

definition mqttexampleMESSAGE :: "uint8_t list" where
  "mqttexampleMESSAGE = map (of_nat \<circ> of_char) ''Hello Light Weight MQTT World!''"

text \<open>
  \<open>MQTTPacketInfo_t\<close>: \<open>pRemainingData\<close> is \<open>None\<close> for the null pointer, otherwise
  the bytes of the array it points into, from the pointer on. \<open>size_t\<close> values are
  natural numbers.
\<close>

record MQTTPacketInfo_t =
  packet_type :: uint8_t
  pRemainingData :: "uint8_t list option"
  remainingLength :: nat

record MQTTPublishInfo_t =
  qos :: MQTTQoS_t
  retain :: bool
  pTopicName :: "uint8_t list"
  topicNameLength :: uint16_t
  pPayload :: "uint8_t list"
  payloadLength :: nat

record MQTTSubscribeInfo_t =
  sub_qos :: MQTTQoS_t
  pTopicFilter :: "uint8_t list"
  topicFilterLength :: uint16_t

record MQTTConnectInfo_t =
  cleanSession :: bool
  keepAliveSeconds :: uint16_t
  pClientIdentifier :: "uint8_t list"
  clientIdentifierLength :: uint16_t

record topicFilterContext_t =
  pcTopicFilter :: "uint8_t list"
  xSubAckSuccess :: bool

section \<open>The program state and what lies outside the program\<close>

text \<open>
  Every call that leaves the program (transport, scheduler, retry utility, logging) is
  recorded, in order, in \<open>calls\<close>. Log calls carry the source line of the call, a
  delay its length in milliseconds (the argument of \<open>pdMS_TO_TICKS\<close>).
\<close>

datatype shutdown_how = FREERTOS_SHUT_RD | FREERTOS_SHUT_WR | FREERTOS_SHUT_RDWR

datatype call =
    C_FreeRTOS_socket
  | C_FreeRTOS_gethostbyname
  | C_FreeRTOS_connect Socket_t
  | C_FreeRTOS_send Socket_t "uint8_t list"
  | C_FreeRTOS_recv Socket_t nat
  | C_FreeRTOS_shutdown Socket_t shutdown_how
  | C_FreeRTOS_closesocket Socket_t
  | C_MQTT_GetIncomingPacketTypeAndLength Socket_t
  | C_RetryUtils_BackoffAndSleep
  | C_vTaskDelay nat
  | C_LogInfo nat
  | C_LogWarn nat
  | C_LogError nat

fun is_socket :: "call \<Rightarrow> bool" where
  "is_socket C_FreeRTOS_socket = True"
| "is_socket _ = False"

fun is_gethostbyname :: "call \<Rightarrow> bool" where
  "is_gethostbyname C_FreeRTOS_gethostbyname = True"
| "is_gethostbyname _ = False"

fun is_connect :: "call \<Rightarrow> bool" where
  "is_connect (C_FreeRTOS_connect _) = True"
| "is_connect _ = False"

fun is_send :: "call \<Rightarrow> bool" where
  "is_send (C_FreeRTOS_send _ _) = True"
| "is_send _ = False"

fun is_recv :: "call \<Rightarrow> bool" where
  "is_recv (C_FreeRTOS_recv _ _) = True"
| "is_recv _ = False"

fun is_header_read :: "call \<Rightarrow> bool" where
  "is_header_read (C_MQTT_GetIncomingPacketTypeAndLength _) = True"
| "is_header_read _ = False"

fun is_backoff :: "call \<Rightarrow> bool" where
  "is_backoff C_RetryUtils_BackoffAndSleep = True"
| "is_backoff _ = False"

text \<open>
  The file-scope variables: \<open>ucSharedBuffer\<close>, the two remembered packet identifiers,
  \<open>xTopicFilterContext\<close>, and the function-scope static \<open>usPacketId\<close> of
  \<open>prvGetNextPacketIdentifier\<close>.
\<close>

record state =
  ucSharedBuffer :: "uint8_t list"
  usSubscribePacketIdentifier :: uint16_t
  usUnsubscribePacketIdentifier :: uint16_t
  xTopicFilterContext :: "topicFilterContext_t list"
  usPacketId :: uint16_t
  calls :: "call list"

text \<open>
  What the transport, the retry utility and the MQTT library answer. The answer of a
  call that depends on the outside world is indexed by the number of earlier calls of
  the same function; the serializers and deserializers of the MQTT library are functions
  of their arguments (for \<open>MQTT_DeserializeAck\<close>: the packet, and whether a pointer for
  the session-present flag is passed). \<open>mqttexampleTOPIC\<close> and \<open>democonfigCLIENT_IDENTIFIER\<close> are the
  characters of the configured string literals, without the terminating zero.
\<close>

record env =
  mqttexampleTOPIC :: "uint8_t list"
  democonfigCLIENT_IDENTIFIER :: "uint8_t list"
  o_FreeRTOS_socket :: "nat \<Rightarrow> Socket_t"
  o_FreeRTOS_gethostbyname :: "nat \<Rightarrow> uint32_t"
  o_FreeRTOS_connect :: "nat \<Rightarrow> int"
  o_FreeRTOS_send :: "nat \<Rightarrow> uint8_t list \<Rightarrow> int"
  o_FreeRTOS_recv :: "nat \<Rightarrow> nat \<Rightarrow> int \<times> uint8_t list"
  o_RetryUtils_BackoffAndSleep :: "nat \<Rightarrow> RetryUtilsStatus_t"
  o_MQTT_GetIncomingPacketTypeAndLength :: "nat \<Rightarrow> MQTTStatus_t \<times> uint8_t \<times> nat"
  o_MQTT_DeserializeAck :: "MQTTPacketInfo_t \<Rightarrow> bool \<Rightarrow> MQTTStatus_t \<times> uint16_t"
  o_MQTT_DeserializePublish :: "MQTTPacketInfo_t \<Rightarrow> MQTTStatus_t \<times> uint16_t \<times> MQTTPublishInfo_t"
  o_MQTT_GetConnectPacketSize :: "MQTTConnectInfo_t \<Rightarrow> MQTTStatus_t \<times> nat \<times> nat"
  o_MQTT_SerializeConnect :: "MQTTConnectInfo_t \<Rightarrow> nat \<Rightarrow> MQTTStatus_t \<times> uint8_t list"
  o_MQTT_GetSubscribePacketSize :: "MQTTSubscribeInfo_t list \<Rightarrow> MQTTStatus_t \<times> nat \<times> nat"
  o_MQTT_SerializeSubscribe ::
    "MQTTSubscribeInfo_t list \<Rightarrow> uint16_t \<Rightarrow> nat \<Rightarrow> MQTTStatus_t \<times> uint8_t list"
  o_MQTT_GetUnsubscribePacketSize :: "MQTTSubscribeInfo_t list \<Rightarrow> MQTTStatus_t \<times> nat \<times> nat"
  o_MQTT_SerializeUnsubscribe ::
    "MQTTSubscribeInfo_t list \<Rightarrow> uint16_t \<Rightarrow> nat \<Rightarrow> MQTTStatus_t \<times> uint8_t list"
  o_MQTT_GetPublishPacketSize :: "MQTTPublishInfo_t \<Rightarrow> MQTTStatus_t \<times> nat \<times> nat"
  o_MQTT_SerializePublishHeader ::
    "MQTTPublishInfo_t \<Rightarrow> uint16_t \<Rightarrow> nat \<Rightarrow> MQTTStatus_t \<times> uint8_t list \<times> nat"
  o_MQTT_GetPingreqPacketSize :: "MQTTStatus_t \<times> nat"
  o_MQTT_SerializePingreq :: "MQTTStatus_t \<times> uint8_t list"
  o_MQTT_GetDisconnectPacketSize :: "MQTTStatus_t \<times> nat"
  o_MQTT_SerializeDisconnect :: "MQTTStatus_t \<times> uint8_t list"

section \<open>Programs that may abort\<close>

text \<open>
  A failed \<open>configASSERT\<close> stops the program; the error carries the source line of the
  assertion. An access outside an array is undefined behaviour in C and is an error of
  its own, with the line of the access. \<open>OutOfFuel\<close> is the model's bound on a loop
  that the source does not bound. An aborted run keeps the state it stopped in.
\<close>

datatype error = ConfigAssert nat | OutOfBounds nat | OutOfFuel

type_synonym 'a prog = "state \<Rightarrow> (error \<times> state) + ('a \<times> state)"

definition return :: "'a \<Rightarrow> 'a prog" where
  "return x s = Inr (x, s)"

definition abort :: "error \<Rightarrow> 'a prog" where
  "abort e s = Inl (e, s)"

definition bind :: "'a prog \<Rightarrow> ('a \<Rightarrow> 'b prog) \<Rightarrow> 'b prog" where
  "bind m k s = (case m s of Inl x \<Rightarrow> Inl x | Inr (r, s') \<Rightarrow> k r s')"

definition configASSERT :: "nat \<Rightarrow> bool \<Rightarrow> unit prog" where
  "configASSERT line c = (if c then return () else abort (ConfigAssert line))"

definition extern :: "call \<Rightarrow> unit prog" where
  "extern c s = Inr ((), s\<lparr>calls := calls s @ [c]\<rparr>)"

definition ncalls :: "(call \<Rightarrow> bool) \<Rightarrow> state \<Rightarrow> nat" where
  "ncalls p s = length (filter p (calls s))"

text \<open>The state a run ends in, aborted or not.\<close>

definition final :: "(error \<times> state) + ('a \<times> state) \<Rightarrow> state" where
  "final r = (case r of Inl (e, s) \<Rightarrow> s | Inr (x, s) \<Rightarrow> s)"

text \<open>\<open>( BaseType_t ) n\<close> for a \<open>size_t\<close> value: a signed 32-bit integer.\<close>

definition BaseType_of_size :: "nat \<Rightarrow> int" where
  "BaseType_of_size n = sint (word_of_nat n :: 32 word)"

text \<open>
  Writing bytes at the start of \<open>ucSharedBuffer\<close> (through \<open>xBuffer.pBuffer\<close>); a
  library call never writes past the size it is given.
\<close>

definition overwrite :: "uint8_t list \<Rightarrow> uint8_t list \<Rightarrow> uint8_t list" where
  "overwrite bs buf = (let n = min (length bs) (length buf) in take n bs @ drop n buf)"

definition write_ucSharedBuffer :: "uint8_t list \<Rightarrow> unit prog" where
  "write_ucSharedBuffer bs s = Inr ((), s\<lparr>ucSharedBuffer := overwrite bs (ucSharedBuffer s)\<rparr>)"

subsection \<open>The calls that leave the program\<close>

definition LogInfo :: "nat \<Rightarrow> unit prog" where
  "LogInfo line = extern (C_LogInfo line)"

definition LogWarn :: "nat \<Rightarrow> unit prog" where
  "LogWarn line = extern (C_LogWarn line)"

definition LogError :: "nat \<Rightarrow> unit prog" where
  "LogError line = extern (C_LogError line)"

definition vTaskDelay :: "nat \<Rightarrow> unit prog" where
  "vTaskDelay ms = extern (C_vTaskDelay ms)"

definition FreeRTOS_shutdown :: "Socket_t \<Rightarrow> shutdown_how \<Rightarrow> unit prog" where
  "FreeRTOS_shutdown xSocket xHow = extern (C_FreeRTOS_shutdown xSocket xHow)"

definition FreeRTOS_closesocket :: "Socket_t \<Rightarrow> unit prog" where
  "FreeRTOS_closesocket xSocket = extern (C_FreeRTOS_closesocket xSocket)"

text \<open>
  \<open>FreeRTOS_recv\<close> returns its result and the bytes it stored, at most
  \<open>xBufferLength\<close> of them; the caller's buffer receives them.
\<close>

definition FreeRTOS_recv :: "env \<Rightarrow> Socket_t \<Rightarrow> nat \<Rightarrow> (int \<times> uint8_t list) prog" where
  "FreeRTOS_recv env xSocket xBufferLength s =
     (case o_FreeRTOS_recv env (ncalls is_recv s) xBufferLength of
        (r, bs) \<Rightarrow>
          Inr ((r, take xBufferLength bs),
               s\<lparr>calls := calls s @ [C_FreeRTOS_recv xSocket xBufferLength]\<rparr>))"

definition FreeRTOS_send :: "env \<Rightarrow> Socket_t \<Rightarrow> uint8_t list \<Rightarrow> int prog" where
  "FreeRTOS_send env xSocket bs s =
     Inr (o_FreeRTOS_send env (ncalls is_send s) bs,
          s\<lparr>calls := calls s @ [C_FreeRTOS_send xSocket bs]\<rparr>)"

definition FreeRTOS_socket :: "env \<Rightarrow> Socket_t prog" where
  "FreeRTOS_socket env s =
     Inr (o_FreeRTOS_socket env (ncalls is_socket s), s\<lparr>calls := calls s @ [C_FreeRTOS_socket]\<rparr>)"

definition FreeRTOS_gethostbyname :: "env \<Rightarrow> uint32_t prog" where
  "FreeRTOS_gethostbyname env s =
     Inr (o_FreeRTOS_gethostbyname env (ncalls is_gethostbyname s),
          s\<lparr>calls := calls s @ [C_FreeRTOS_gethostbyname]\<rparr>)"

definition FreeRTOS_connect :: "env \<Rightarrow> Socket_t \<Rightarrow> int prog" where
  "FreeRTOS_connect env xSocket s =
     Inr (o_FreeRTOS_connect env (ncalls is_connect s),
          s\<lparr>calls := calls s @ [C_FreeRTOS_connect xSocket]\<rparr>)"

definition RetryUtils_BackoffAndSleep :: "env \<Rightarrow> RetryUtilsStatus_t prog" where
  "RetryUtils_BackoffAndSleep env s =
     Inr (o_RetryUtils_BackoffAndSleep env (ncalls is_backoff s),
          s\<lparr>calls := calls s @ [C_RetryUtils_BackoffAndSleep]\<rparr>)"

text \<open>
  \<open>MQTT_GetIncomingPacketTypeAndLength\<close> reads the fixed header through the transport
  (the callback \<open>prvTransportRecv\<close>) and fills in the type and the remaining length of
  a packet structure that the caller has zeroed.
\<close>

definition MQTT_GetIncomingPacketTypeAndLength ::
  "env \<Rightarrow> Socket_t \<Rightarrow> (MQTTStatus_t \<times> MQTTPacketInfo_t) prog" where
  "MQTT_GetIncomingPacketTypeAndLength env xTcpSocket s =
     (case o_MQTT_GetIncomingPacketTypeAndLength env (ncalls is_header_read s) of
        (xResult, t, n) \<Rightarrow>
          Inr ((xResult, \<lparr>packet_type = t, pRemainingData = None, remainingLength = n\<rparr>),
               s\<lparr>calls := calls s @ [C_MQTT_GetIncomingPacketTypeAndLength xTcpSocket]\<rparr>))"

section \<open>The packet identifier allocator\<close>

definition prvGetNextPacketIdentifier :: "uint16_t prog" where
  "prvGetNextPacketIdentifier s =
     (let usPacketId1 = usPacketId s + 1;
          usPacketId2 = (if usPacketId1 = 0 then 1 else usPacketId1)
      in Inr (usPacketId2, s\<lparr>usPacketId := usPacketId2\<rparr>))"

section \<open>Helpers for loops, arrays and C strings\<close>

definition gets :: "(state \<Rightarrow> 'a) \<Rightarrow> 'a prog" where
  "gets f s = Inr (f s, s)"

text \<open>A \<open>for\<close> loop without \<open>break\<close> over the given values of its counter.\<close>

fun for_each :: "nat list \<Rightarrow> (nat \<Rightarrow> unit prog) \<Rightarrow> unit prog" where
  "for_each [] body = return ()"
| "for_each (i # js) body = bind (body i) (\<lambda>_. for_each js body)"

definition read_byte :: "nat \<Rightarrow> uint8_t list \<Rightarrow> nat \<Rightarrow> uint8_t prog" where
  "read_byte line xs i = (if i < length xs then return (xs ! i) else abort (OutOfBounds line))"

definition get_xSubAckSuccess :: "nat \<Rightarrow> nat \<Rightarrow> bool prog" where
  "get_xSubAckSuccess line i s =
     (if i < length (xTopicFilterContext s)
      then Inr (xSubAckSuccess (xTopicFilterContext s ! i), s)
      else Inl (OutOfBounds line, s))"

definition set_xSubAckSuccess :: "nat \<Rightarrow> nat \<Rightarrow> bool \<Rightarrow> unit prog" where
  "set_xSubAckSuccess line i b s =
     (if i < length (xTopicFilterContext s)
      then Inr ((), s\<lparr>xTopicFilterContext :=
                       (xTopicFilterContext s)[i := (xTopicFilterContext s ! i)\<lparr>xSubAckSuccess := b\<rparr>]\<rparr>)
      else Inl (OutOfBounds line, s))"

text \<open>
  \<open>strlen\<close> and \<open>strncmp\<close> of the C library on byte arrays. \<open>strncmp\<close> is \<open>None\<close>
  when it would read past the end of an array.
\<close>

definition strlen :: "uint8_t list \<Rightarrow> nat" where
  "strlen str = length (takeWhile (\<lambda>c. c \<noteq> 0) str)"

fun strncmp :: "uint8_t list \<Rightarrow> uint8_t list \<Rightarrow> nat \<Rightarrow> int option" where
  "strncmp s1 s2 0 = Some 0"
| "strncmp (c1 # s1) (c2 # s2) (Suc n) =
     (if c1 \<noteq> c2 then Some (uint c1 - uint c2)
      else if c1 = 0 then Some 0
      else strncmp s1 s2 n)"
| "strncmp _ _ (Suc n) = None"

section \<open>The subscription state tracker\<close>

definition prvMQTTUpdateSubAckStatus :: "MQTTPacketInfo_t \<Rightarrow> unit prog" where
  "prvMQTTUpdateSubAckStatus pxPacketInfo =
     bind (configASSERT 874 (packet_type pxPacketInfo = MQTT_PACKET_TYPE_SUBACK)) (\<lambda>_.
     case pRemainingData pxPacketInfo of
       None \<Rightarrow> abort (ConfigAssert 875)
     | Some pRemaining \<Rightarrow>
         bind (configASSERT 876 (remainingLength pxPacketInfo \<ge> 3)) (\<lambda>_.
         (let pucPayload = drop 2 pRemaining;
              ulSize = remainingLength pxPacketInfo - 2
          in for_each [0..<ulSize] (\<lambda>ulTopicCount.
               bind (read_byte 885 pucPayload (ulTopicCount * 2)) (\<lambda>b.
               if b AND 0x80 \<noteq> 0
               then set_xSubAckSuccess 887 ulTopicCount False
               else set_xSubAckSuccess 891 ulTopicCount True)))))"

section \<open>Response and publish handling\<close>

definition prvMQTTProcessResponse :: "MQTTPacketInfo_t \<Rightarrow> uint16_t \<Rightarrow> unit prog" where
  "prvMQTTProcessResponse pxIncomingPacket usPacketId' =
     (if packet_type pxIncomingPacket = MQTT_PACKET_TYPE_SUBACK then
        bind (for_each [0..<mqttexampleTOPIC_COUNT] (\<lambda>ulTopicCount.
                bind (get_xSubAckSuccess 1061 ulTopicCount) (\<lambda>b.
                if b \<noteq> False then LogInfo 1063 else return ()))) (\<lambda>_.
        bind (gets usSubscribePacketIdentifier) (\<lambda>i.
        configASSERT 1070 (i = usPacketId')))
      else if packet_type pxIncomingPacket = MQTT_PACKET_TYPE_UNSUBACK then
        bind (LogInfo 1074) (\<lambda>_.
        bind (gets usUnsubscribePacketIdentifier) (\<lambda>i.
        configASSERT 1076 (i = usPacketId')))
      else if packet_type pxIncomingPacket = MQTT_PACKET_TYPE_PINGRESP then
        LogInfo 1080
      else
        LogWarn 1085)"

definition prvMQTTProcessIncomingPublish :: "env \<Rightarrow> MQTTPublishInfo_t \<Rightarrow> unit prog" where
  "prvMQTTProcessIncomingPublish env pxPublishInfo =
     bind (LogInfo 1097) (\<lambda>_.
     if unat (topicNameLength pxPublishInfo) = strlen (mqttexampleTOPIC env @ [0]) then
       (case strncmp (mqttexampleTOPIC env @ [0]) (pTopicName pxPublishInfo)
               (unat (topicNameLength pxPublishInfo)) of
          None \<Rightarrow> abort (OutOfBounds 1101)
        | Some c \<Rightarrow> if 0 = c then LogInfo 1105 else LogInfo 1114)
     else LogInfo 1114)"

section \<open>The incoming packet dispatcher\<close>

definition prvMQTTProcessIncomingPacket :: "env \<Rightarrow> Socket_t \<Rightarrow> unit prog" where
  "prvMQTTProcessIncomingPacket env xMQTTSocket =
     bind (MQTT_GetIncomingPacketTypeAndLength env xMQTTSocket) (\<lambda>(xResult, xIncomingPacket).
     if xResult \<noteq> MQTTNoDataAvailable then
       bind (configASSERT 1147 (xResult = MQTTSuccess)) (\<lambda>_.
       bind (configASSERT 1148
               (remainingLength xIncomingPacket \<le> mqttexampleSHARED_BUFFER_SIZE)) (\<lambda>_.
       bind (if remainingLength xIncomingPacket > 0 then
               bind (FreeRTOS_recv env xMQTTSocket (remainingLength xIncomingPacket))
                 (\<lambda>(xStatus, bs).
               bind (write_ucSharedBuffer bs) (\<lambda>_.
               bind (configASSERT 1160
                       (xStatus = BaseType_of_size (remainingLength xIncomingPacket))) (\<lambda>_.
               bind (gets ucSharedBuffer) (\<lambda>pBuffer.
               return (xIncomingPacket\<lparr>pRemainingData := Some pBuffer\<rparr>)))))
             else return xIncomingPacket) (\<lambda>xIncomingPacket.
       if packet_type xIncomingPacket AND 0xf0 = MQTT_PACKET_TYPE_PUBLISH then
         (case o_MQTT_DeserializePublish env xIncomingPacket of
            (xResult, usPacketId', xPublishInfo) \<Rightarrow>
              bind (configASSERT 1168 (xResult = MQTTSuccess)) (\<lambda>_.
              prvMQTTProcessIncomingPublish env xPublishInfo))
       else
         (case o_MQTT_DeserializeAck env xIncomingPacket False of
            (xResult, usPacketId') \<Rightarrow>
              bind (configASSERT 1181 (xResult = MQTTSuccess)) (\<lambda>_.
              bind (if packet_type xIncomingPacket = MQTT_PACKET_TYPE_SUBACK then
                      bind (prvMQTTUpdateSubAckStatus xIncomingPacket) (\<lambda>_.
                      configASSERT 1189
                        (xResult = MQTTSuccess \<or> xResult = MQTTServerRefused))
                    else configASSERT 1193 (xResult = MQTTSuccess)) (\<lambda>_.
              prvMQTTProcessResponse xIncomingPacket usPacketId'))))))
     else return ())"

section \<open>Graceful shutdown\<close>

function prvGracefulShutDown_loop :: "env \<Rightarrow> Socket_t \<Rightarrow> int \<Rightarrow> unit prog" where
  "prvGracefulShutDown_loop env xSocket xShutdownLoopCount s =
     (case FreeRTOS_recv env xSocket 20 s of
        Inl x \<Rightarrow> Inl x
      | Inr ((r, ucDummy), s1) \<Rightarrow>
          if r \<ge> 0 then
            (case vTaskDelay xShortDelay s1 of
               Inl x \<Rightarrow> Inl x
             | Inr (u, s2) \<Rightarrow>
                 if xShutdownLoopCount + 1 \<ge> mqttexampleMAX_SOCKET_SHUTDOWN_LOOPS
                 then Inr ((), s2)
                 else prvGracefulShutDown_loop env xSocket (xShutdownLoopCount + 1) s2)
          else Inr ((), s1))"
  by pat_completeness auto
termination
  by (relation "measure (\<lambda>(env, xSocket, c, s). nat (mqttexampleMAX_SOCKET_SHUTDOWN_LOOPS - c))")
     auto

definition prvGracefulShutDown :: "env \<Rightarrow> Socket_t \<Rightarrow> unit prog" where
  "prvGracefulShutDown env xSocket =
     (if xSocket \<noteq> 0 then
        if xSocket \<noteq> FREERTOS_INVALID_SOCKET then
          bind (FreeRTOS_shutdown xSocket FREERTOS_SHUT_RDWR) (\<lambda>_.
          bind (prvGracefulShutDown_loop env xSocket 0) (\<lambda>_.
          FreeRTOS_closesocket xSocket))
        else return ()
      else return ())"

section \<open>Connecting\<close>

text \<open>\<open>xStatus\<close> is \<open>True\<close> for \<open>pdPASS\<close> and \<open>False\<close> for \<open>pdFAIL\<close>.\<close>

definition prvCreateTCPConnectionToBroker :: "env \<Rightarrow> Socket_t prog" where
  "prvCreateTCPConnectionToBroker env =
     bind (FreeRTOS_socket env) (\<lambda>xMQTTSocket.
     bind (if xMQTTSocket \<noteq> FREERTOS_INVALID_SOCKET then
             bind (FreeRTOS_gethostbyname env) (\<lambda>ulBrokerIPAddress.
             if ulBrokerIPAddress \<noteq> 0 then
               bind (FreeRTOS_connect env xMQTTSocket) (\<lambda>r.
               if r = 0 then return True
               else bind (LogInfo 587) (\<lambda>_. return False))
             else bind (LogInfo 592) (\<lambda>_. return False))
           else bind (LogInfo 597) (\<lambda>_. return False)) (\<lambda>xStatus.
     if xStatus = False then
       if xMQTTSocket \<noteq> FREERTOS_INVALID_SOCKET then
         bind (FreeRTOS_closesocket xMQTTSocket) (\<lambda>_. return FREERTOS_INVALID_SOCKET)
       else return xMQTTSocket
     else return xMQTTSocket))"

text \<open>
  The \<open>do ... while\<close> loop of \<open>prvConnectToServerWithBackoffRetries\<close>; the source does
  not bound it by itself (the retry utility does), so the model gives it fuel.
\<close>

fun prvConnectToServerWithBackoffRetries_loop ::
  "nat \<Rightarrow> env \<Rightarrow> RetryUtilsStatus_t \<Rightarrow> Socket_t prog" where
  "prvConnectToServerWithBackoffRetries_loop 0 env xRetryUtilsStatus = abort OutOfFuel"
| "prvConnectToServerWithBackoffRetries_loop (Suc fuel) env xRetryUtilsStatus =
     bind (LogInfo 634) (\<lambda>_.
     bind (prvCreateTCPConnectionToBroker env) (\<lambda>xSocket.
     bind (if xSocket = FREERTOS_INVALID_SOCKET then
             bind (LogWarn 641) (\<lambda>_. RetryUtils_BackoffAndSleep env)
           else return xRetryUtilsStatus) (\<lambda>xRetryUtilsStatus.
     bind (if xRetryUtilsStatus = RetryUtilsRetriesExhausted then
             bind (LogError 647) (\<lambda>_. return FREERTOS_INVALID_SOCKET)
           else return xSocket) (\<lambda>xSocket.
     if xSocket = FREERTOS_INVALID_SOCKET \<and> xRetryUtilsStatus = RetryUtilsSuccess
     then prvConnectToServerWithBackoffRetries_loop fuel env xRetryUtilsStatus
     else return xSocket))))"

definition prvConnectToServerWithBackoffRetries :: "nat \<Rightarrow> env \<Rightarrow> Socket_t prog" where
  "prvConnectToServerWithBackoffRetries fuel env =
     prvConnectToServerWithBackoffRetries_loop fuel env RetryUtilsSuccess"

definition prvCreateMQTTConnectionWithBroker :: "env \<Rightarrow> Socket_t \<Rightarrow> unit prog" where
  "prvCreateMQTTConnectionWithBroker env xMQTTSocket =
     (let xConnectInfo =
            \<lparr>cleanSession = True,
             keepAliveSeconds = word_of_nat mqttexampleKEEP_ALIVE_TIMEOUT_SECONDS,
             pClientIdentifier = democonfigCLIENT_IDENTIFIER env,
             clientIdentifierLength =
               word_of_nat (strlen (democonfigCLIENT_IDENTIFIER env @ [0]))\<rparr>
      in case o_MQTT_GetConnectPacketSize env xConnectInfo of
        (xResult, xRemainingLength, xPacketSize) \<Rightarrow>
     bind (configASSERT 701 (xResult = MQTTSuccess)) (\<lambda>_.
     bind (configASSERT 702 (xPacketSize < mqttexampleSHARED_BUFFER_SIZE)) (\<lambda>_.
     case o_MQTT_SerializeConnect env xConnectInfo xRemainingLength of
        (xResult, bs) \<Rightarrow>
     bind (write_ucSharedBuffer bs) (\<lambda>_.
     bind (configASSERT 709 (xResult = MQTTSuccess)) (\<lambda>_.
     bind (gets ucSharedBuffer) (\<lambda>pBuffer.
     bind (FreeRTOS_send env xMQTTSocket (take xPacketSize pBuffer)) (\<lambda>xStatus.
     bind (configASSERT 715 (xStatus = BaseType_of_size xPacketSize)) (\<lambda>_.
     bind (MQTT_GetIncomingPacketTypeAndLength env xMQTTSocket) (\<lambda>(xResult, xIncomingPacket).
     bind (configASSERT 732 (xResult = MQTTSuccess)) (\<lambda>_.
     bind (configASSERT 733 (packet_type xIncomingPacket = MQTT_PACKET_TYPE_CONNACK)) (\<lambda>_.
     bind (configASSERT 734
             (remainingLength xIncomingPacket \<le> mqttexampleSHARED_BUFFER_SIZE)) (\<lambda>_.
     bind (FreeRTOS_recv env xMQTTSocket (remainingLength xIncomingPacket)) (\<lambda>(xStatus, bs).
     bind (write_ucSharedBuffer bs) (\<lambda>_.
     bind (configASSERT 741
             (xStatus = BaseType_of_size (remainingLength xIncomingPacket))) (\<lambda>_.
     bind (gets ucSharedBuffer) (\<lambda>pBuffer.
     case o_MQTT_DeserializeAck env (xIncomingPacket\<lparr>pRemainingData := Some pBuffer\<rparr>) True of
        (xResult, usPacketId') \<Rightarrow>
     bind (configASSERT 747 (xResult = MQTTSuccess)) (\<lambda>_.
     if xResult \<noteq> MQTTSuccess then LogInfo 751 else return ())))))))))))))))))"

section \<open>Subscribing\<close>

definition set_usSubscribePacketIdentifier :: "uint16_t \<Rightarrow> unit prog" where
  "set_usSubscribePacketIdentifier i s = Inr ((), s\<lparr>usSubscribePacketIdentifier := i\<rparr>)"

definition set_usUnsubscribePacketIdentifier :: "uint16_t \<Rightarrow> unit prog" where
  "set_usUnsubscribePacketIdentifier i s = Inr ((), s\<lparr>usUnsubscribePacketIdentifier := i\<rparr>)"

text \<open>An element of a \<open>MQTTSubscribeInfo_t\<close> array after \<open>memset\<close> to zero.\<close>

definition zeroed_subscription :: MQTTSubscribeInfo_t where
  "zeroed_subscription = \<lparr>sub_qos = MQTTQoS0, pTopicFilter = [], topicFilterLength = 0\<rparr>"

definition topic_subscription :: "env \<Rightarrow> MQTTSubscribeInfo_t" where
  "topic_subscription env =
     \<lparr>sub_qos = MQTTQoS0, pTopicFilter = mqttexampleTOPIC env,
      topicFilterLength = word_of_nat (strlen (mqttexampleTOPIC env @ [0]))\<rparr>"

definition prvMQTTSubscribeToTopic :: "env \<Rightarrow> Socket_t \<Rightarrow> unit prog" where
  "prvMQTTSubscribeToTopic env xMQTTSocket =
     (let xMQTTSubscription =
            topic_subscription env # replicate (mqttexampleTOPIC_COUNT - 1) zeroed_subscription
      in case o_MQTT_GetSubscribePacketSize env xMQTTSubscription of
        (xResult, xRemainingLength, xPacketSize) \<Rightarrow>
     bind (configASSERT 784 (xResult = MQTTSuccess)) (\<lambda>_.
     bind (configASSERT 785 (xPacketSize < mqttexampleSHARED_BUFFER_SIZE)) (\<lambda>_.
     bind prvGetNextPacketIdentifier (\<lambda>i.
     bind (set_usSubscribePacketIdentifier i) (\<lambda>_.
     bind (configASSERT 790 (i \<noteq> 0)) (\<lambda>_.
     case o_MQTT_SerializeSubscribe env xMQTTSubscription i xRemainingLength of
        (xResult, bs) \<Rightarrow>
     bind (write_ucSharedBuffer bs) (\<lambda>_.
     bind (configASSERT 799 (xResult = MQTTSuccess)) (\<lambda>_.
     bind (gets ucSharedBuffer) (\<lambda>pBuffer.
     bind (FreeRTOS_send env xMQTTSocket (take xPacketSize pBuffer)) (\<lambda>xStatus.
     configASSERT 807 (xStatus = BaseType_of_size xPacketSize)))))))))))"

text \<open>
  The \<open>for\<close> loop of \<open>prvMQTTSubscribeWithBackoffRetries\<close> over the topic filter
  contexts, which leaves at the first rejected filter (\<open>break\<close>).
\<close>

fun prvMQTTSubscribeWithBackoffRetries_check ::
  "env \<Rightarrow> nat list \<Rightarrow> bool \<Rightarrow> RetryUtilsStatus_t \<Rightarrow> (bool \<times> RetryUtilsStatus_t) prog" where
  "prvMQTTSubscribeWithBackoffRetries_check env [] xFailedSubscribeToTopic xRetryUtilsStatus =
     return (xFailedSubscribeToTopic, xRetryUtilsStatus)"
| "prvMQTTSubscribeWithBackoffRetries_check env (ulTopicCount # js)
       xFailedSubscribeToTopic xRetryUtilsStatus =
     bind (get_xSubAckSuccess 851 ulTopicCount) (\<lambda>b.
     if b = False then
       bind (LogWarn 853) (\<lambda>_.
       bind (RetryUtils_BackoffAndSleep env) (\<lambda>xRetryUtilsStatus'.
       return (True, xRetryUtilsStatus')))
     else prvMQTTSubscribeWithBackoffRetries_check env js
            xFailedSubscribeToTopic xRetryUtilsStatus)"

text \<open>
  The \<open>do ... while\<close> loop of \<open>prvMQTTSubscribeWithBackoffRetries\<close>, with fuel. The two
  locals \<open>xFailedSubscribeToTopic\<close> and \<open>xRetryUtilsStatus\<close> are set before the loop and
  carried from one round to the next.
\<close>

fun prvMQTTSubscribeWithBackoffRetries_loop ::
  "nat \<Rightarrow> env \<Rightarrow> Socket_t \<Rightarrow> bool \<Rightarrow> RetryUtilsStatus_t \<Rightarrow> unit prog" where
  "prvMQTTSubscribeWithBackoffRetries_loop 0 env xMQTTSocket
       xFailedSubscribeToTopic xRetryUtilsStatus = abort OutOfFuel"
| "prvMQTTSubscribeWithBackoffRetries_loop (Suc fuel) env xMQTTSocket
       xFailedSubscribeToTopic xRetryUtilsStatus =
     bind (LogInfo 831) (\<lambda>_.
     bind (prvMQTTSubscribeToTopic env xMQTTSocket) (\<lambda>_.
     bind (LogInfo 834) (\<lambda>_.
     bind (prvMQTTProcessIncomingPacket env xMQTTSocket) (\<lambda>_.
     bind (prvMQTTSubscribeWithBackoffRetries_check env [0..<mqttexampleTOPIC_COUNT]
             xFailedSubscribeToTopic xRetryUtilsStatus)
       (\<lambda>(xFailedSubscribeToTopic, xRetryUtilsStatus).
     bind (configASSERT 861 (xRetryUtilsStatus \<noteq> RetryUtilsRetriesExhausted)) (\<lambda>_.
     if xFailedSubscribeToTopic = True \<and> xRetryUtilsStatus = RetryUtilsSuccess
     then prvMQTTSubscribeWithBackoffRetries_loop fuel env xMQTTSocket
            xFailedSubscribeToTopic xRetryUtilsStatus
     else return ()))))))"

definition prvMQTTSubscribeWithBackoffRetries :: "nat \<Rightarrow> env \<Rightarrow> Socket_t \<Rightarrow> unit prog" where
  "prvMQTTSubscribeWithBackoffRetries fuel env xMQTTSocket =
     prvMQTTSubscribeWithBackoffRetries_loop fuel env xMQTTSocket False RetryUtilsSuccess"

section \<open>Publish, unsubscribe, keep-alive, disconnect\<close>

definition prvMQTTPublishToTopic :: "env \<Rightarrow> Socket_t \<Rightarrow> unit prog" where
  "prvMQTTPublishToTopic env xMQTTSocket =
     (let xMQTTPublishInfo =
            \<lparr>qos = MQTTQoS0, retain = False,
             pTopicName = mqttexampleTOPIC env,
             topicNameLength = word_of_nat (strlen (mqttexampleTOPIC env @ [0])),
             pPayload = mqttexampleMESSAGE,
             payloadLength = strlen (mqttexampleMESSAGE @ [0])\<rparr>
      in case o_MQTT_GetPublishPacketSize env xMQTTPublishInfo of
        (xResult, xRemainingLength, xPacketSize) \<Rightarrow>
     bind (configASSERT 926 (xResult = MQTTSuccess)) (\<lambda>_.
     bind (configASSERT 929 (xPacketSize < mqttexampleSHARED_BUFFER_SIZE)) (\<lambda>_.
     case o_MQTT_SerializePublishHeader env xMQTTPublishInfo 0 xRemainingLength of
        (xResult, bs, xHeaderSize) \<Rightarrow>
     bind (write_ucSharedBuffer bs) (\<lambda>_.
     bind (configASSERT 939 (xResult = MQTTSuccess)) (\<lambda>_.
     bind (gets ucSharedBuffer) (\<lambda>pBuffer.
     bind (FreeRTOS_send env xMQTTSocket (take xHeaderSize pBuffer)) (\<lambda>xStatus.
     bind (configASSERT 946 (xStatus = BaseType_of_size xHeaderSize)) (\<lambda>_.
     bind (FreeRTOS_send env xMQTTSocket
             (take (payloadLength xMQTTPublishInfo) (pPayload xMQTTPublishInfo))) (\<lambda>xStatus.
     configASSERT 953 (xStatus = BaseType_of_size (payloadLength xMQTTPublishInfo)))))))))))"

definition prvMQTTUnsubscribeFromTopic :: "env \<Rightarrow> Socket_t \<Rightarrow> unit prog" where
  "prvMQTTUnsubscribeFromTopic env xMQTTSocket =
     (let xMQTTSubscription = [topic_subscription env]
      in case o_MQTT_GetUnsubscribePacketSize env xMQTTSubscription of
        (xResult, xRemainingLength, xPacketSize) \<Rightarrow>
     bind (configASSERT 979 (xResult = MQTTSuccess)) (\<lambda>_.
     bind (configASSERT 981 (xPacketSize < mqttexampleSHARED_BUFFER_SIZE)) (\<lambda>_.
     bind prvGetNextPacketIdentifier (\<lambda>i.
     bind (set_usUnsubscribePacketIdentifier i) (\<lambda>_.
     bind (configASSERT 986 (i \<noteq> 0)) (\<lambda>_.
     case o_MQTT_SerializeUnsubscribe env xMQTTSubscription i xRemainingLength of
        (xResult, bs) \<Rightarrow>
     bind (write_ucSharedBuffer bs) (\<lambda>_.
     bind (configASSERT 993 (xResult = MQTTSuccess)) (\<lambda>_.
     bind (gets ucSharedBuffer) (\<lambda>pBuffer.
     bind (FreeRTOS_send env xMQTTSocket (take xPacketSize pBuffer)) (\<lambda>xStatus.
     configASSERT 997 (xStatus = BaseType_of_size xPacketSize)))))))))))"

definition prvMQTTKeepAlive :: "env \<Rightarrow> Socket_t \<Rightarrow> unit prog" where
  "prvMQTTKeepAlive env xMQTTSocket =
     (case o_MQTT_GetPingreqPacketSize env of
        (xResult, xPacketSize) \<Rightarrow>
     bind (configASSERT 1009 (xResult = MQTTSuccess)) (\<lambda>_.
     bind (configASSERT 1010 (xPacketSize \<le> mqttexampleSHARED_BUFFER_SIZE)) (\<lambda>_.
     case o_MQTT_SerializePingreq env of
        (xResult, bs) \<Rightarrow>
     bind (write_ucSharedBuffer bs) (\<lambda>_.
     bind (configASSERT 1013 (xResult = MQTTSuccess)) (\<lambda>_.
     bind (gets ucSharedBuffer) (\<lambda>pBuffer.
     bind (FreeRTOS_send env xMQTTSocket (take xPacketSize pBuffer)) (\<lambda>xStatus.
     configASSERT 1020 (xStatus = BaseType_of_size xPacketSize))))))))"

definition prvMQTTDisconnect :: "env \<Rightarrow> Socket_t \<Rightarrow> unit prog" where
  "prvMQTTDisconnect env xMQTTSocket =
     (case o_MQTT_GetDisconnectPacketSize env of
        (xResult, xPacketSize) \<Rightarrow>
     bind (configASSERT 1033 (xResult = MQTTSuccess)) (\<lambda>_.
     bind (configASSERT 1034 (xPacketSize \<le> mqttexampleSHARED_BUFFER_SIZE)) (\<lambda>_.
     case o_MQTT_SerializeDisconnect env of
        (xResult, bs) \<Rightarrow>
     bind (write_ucSharedBuffer bs) (\<lambda>_.
     bind (configASSERT 1037 (xResult = MQTTSuccess)) (\<lambda>_.
     bind (gets ucSharedBuffer) (\<lambda>pBuffer.
     bind (FreeRTOS_send env xMQTTSocket (take xPacketSize pBuffer)) (\<lambda>xStatus.
     configASSERT 1043 (xStatus = BaseType_of_size xPacketSize))))))))"

section \<open>The session orchestrator\<close>

text \<open>
  One round of the publish and keep-alive loop, and one iteration of the \<open>for( ; ; )\<close>
  loop of \<open>prvMQTTDemoTask\<close>. The fuel bounds the two retry loops.
\<close>

definition prvMQTTDemoTask_publish_round :: "env \<Rightarrow> Socket_t \<Rightarrow> unit prog" where
  "prvMQTTDemoTask_publish_round env xMQTTSocket =
     bind (LogInfo 433) (\<lambda>_.
     bind (prvMQTTPublishToTopic env xMQTTSocket) (\<lambda>_.
     bind (LogInfo 438) (\<lambda>_.
     bind (prvMQTTProcessIncomingPacket env xMQTTSocket) (\<lambda>_.
     bind (LogInfo 442) (\<lambda>_.
     bind (vTaskDelay mqttexampleKEEP_ALIVE_DELAY) (\<lambda>_.
     bind (LogInfo 446) (\<lambda>_.
     bind (prvMQTTKeepAlive env xMQTTSocket) (\<lambda>_.
     prvMQTTProcessIncomingPacket env xMQTTSocket))))))))"

definition prvMQTTDemoTask_iteration :: "nat \<Rightarrow> env \<Rightarrow> unit prog" where
  "prvMQTTDemoTask_iteration fuel env =
     bind (prvConnectToServerWithBackoffRetries fuel env) (\<lambda>xMQTTSocket.
     bind (configASSERT 415 (xMQTTSocket \<noteq> FREERTOS_INVALID_SOCKET)) (\<lambda>_.
     bind (LogInfo 419) (\<lambda>_.
     bind (prvCreateMQTTConnectionWithBroker env xMQTTSocket) (\<lambda>_.
     bind (prvMQTTSubscribeWithBackoffRetries fuel env xMQTTSocket) (\<lambda>_.
     bind (for_each [0..<ulMaxPublishCount] (\<lambda>ulPublishCount.
             prvMQTTDemoTask_publish_round env xMQTTSocket)) (\<lambda>_.
     bind (LogInfo 454) (\<lambda>_.
     bind (prvMQTTUnsubscribeFromTopic env xMQTTSocket) (\<lambda>_.
     bind (prvMQTTProcessIncomingPacket env xMQTTSocket) (\<lambda>_.
     bind (LogInfo 465) (\<lambda>_.
     bind (prvMQTTDisconnect env xMQTTSocket) (\<lambda>_.
     bind (prvGracefulShutDown env xMQTTSocket) (\<lambda>_.
     bind (for_each [0..<mqttexampleTOPIC_COUNT] (\<lambda>ulTopicCount.
             set_xSubAckSuccess 474 ulTopicCount False)) (\<lambda>_.
     bind (LogInfo 479) (\<lambda>_.
     bind (LogInfo 480) (\<lambda>_.
     bind (LogInfo 481) (\<lambda>_.
     vTaskDelay mqttexampleDELAY_BETWEEN_DEMO_ITERATIONS))))))))))))))))"

text \<open>The first \<open>n\<close> iterations of \<open>prvMQTTDemoTask\<close>.\<close>

fun prvMQTTDemoTask :: "nat \<Rightarrow> nat \<Rightarrow> env \<Rightarrow> unit prog" where
  "prvMQTTDemoTask 0 fuel env = return ()"
| "prvMQTTDemoTask (Suc n) fuel env =
     bind (prvMQTTDemoTask_iteration fuel env) (\<lambda>_. prvMQTTDemoTask n fuel env)"

text \<open>The variables as their initializers leave them when the program starts.\<close>

definition initial_state :: "env \<Rightarrow> state" where
  "initial_state env =
     \<lparr>ucSharedBuffer = replicate mqttexampleSHARED_BUFFER_SIZE 0,
      usSubscribePacketIdentifier = 0,
      usUnsubscribePacketIdentifier = 0,
      xTopicFilterContext = [\<lparr>pcTopicFilter = mqttexampleTOPIC env, xSubAckSuccess = False\<rparr>],
      usPacketId = 0,
      calls = []\<rparr>"

section \<open>Concrete environments\<close>

text \<open>
  A broker and a library to run the program against: the topic is \<open>"t"\<close>, the client
  identifier \<open>"c"\<close>, every connection attempt succeeds with socket handle 1, every send
  transmits all its bytes, the retry utility never reports exhaustion. The broker's
  packets are given as the list of the fixed headers that the header reads find and the
  list of the packet bodies that the receive calls return, in order; after the last
  header there is no data, after the last body the connection is invalid
  (\<open>-pdFREERTOS_ERRNO_EINVAL\<close>). The deserializers read the packets as MQTT 3.1.1
  lays them out.
\<close>

definition script :: "'a list \<Rightarrow> 'a \<Rightarrow> nat \<Rightarrow> 'a" where
  "script xs d k = (if k < length xs then xs ! k else d)"

definition packet_id_of :: "uint8_t list \<Rightarrow> uint16_t" where
  "packet_id_of bs = push_bit 8 (ucast (bs ! 0)) OR ucast (bs ! 1)"

definition lib_DeserializeAck :: "MQTTPacketInfo_t \<Rightarrow> bool \<Rightarrow> MQTTStatus_t \<times> uint16_t" where
  "lib_DeserializeAck p sessionPresent =
     (case pRemainingData p of
        None \<Rightarrow>
          if packet_type p = MQTT_PACKET_TYPE_PINGRESP \<and> remainingLength p = 0
          then (MQTTSuccess, 0) else (MQTTOtherStatus, 0)
      | Some bs \<Rightarrow>
          if packet_type p = MQTT_PACKET_TYPE_CONNACK then
            (if sessionPresent \<and> remainingLength p = 2 \<and> bs ! 1 = 0
             then MQTTSuccess else MQTTOtherStatus, 0)
          else if packet_type p = MQTT_PACKET_TYPE_SUBACK then
            (if remainingLength p < 3 then (MQTTOtherStatus, 0)
             else (if list_ex (\<lambda>b. b = 0x80) (take (remainingLength p - 2) (drop 2 bs))
                   then MQTTServerRefused else MQTTSuccess, packet_id_of bs))
          else if (packet_type p = MQTT_PACKET_TYPE_UNSUBACK \<or> packet_type p = 0x40)
                  \<and> remainingLength p = 2 then
            (if packet_id_of bs = 0 then MQTTOtherStatus else MQTTSuccess, packet_id_of bs)
          else (MQTTOtherStatus, 0))"

text \<open>
  A deserializer that differs from \<open>lib_DeserializeAck\<close> in one point: it reports
  \<open>MQTTSuccess\<close> also for a SUBACK that carries a rejection.
\<close>

definition lenient_DeserializeAck :: "MQTTPacketInfo_t \<Rightarrow> bool \<Rightarrow> MQTTStatus_t \<times> uint16_t" where
  "lenient_DeserializeAck p sessionPresent =
     (case lib_DeserializeAck p sessionPresent of
        (xResult, i) \<Rightarrow> (if xResult = MQTTServerRefused then MQTTSuccess else xResult, i))"

definition lib_DeserializePublish ::
  "MQTTPacketInfo_t \<Rightarrow> MQTTStatus_t \<times> uint16_t \<times> MQTTPublishInfo_t" where
  "lib_DeserializePublish p =
     (case pRemainingData p of
        None \<Rightarrow> (MQTTOtherStatus, 0,
                  \<lparr>qos = MQTTQoS0, retain = False, pTopicName = [], topicNameLength = 0,
                   pPayload = [], payloadLength = 0\<rparr>)
      | Some bs \<Rightarrow>
          (let n = unat (packet_id_of bs) in
           (if remainingLength p < 2 + n then MQTTOtherStatus else MQTTSuccess, 0,
            \<lparr>qos = MQTTQoS0, retain = False,
             pTopicName = drop 2 bs, topicNameLength = packet_id_of bs,
             pPayload = drop (2 + n) bs, payloadLength = remainingLength p - (2 + n)\<rparr>)))"

definition test_env ::
  "(MQTTStatus_t \<times> uint8_t \<times> nat) list \<Rightarrow> uint8_t list list \<Rightarrow>
   (MQTTPacketInfo_t \<Rightarrow> bool \<Rightarrow> MQTTStatus_t \<times> uint16_t) \<Rightarrow> env" where
  "test_env headers bodies deserializeAck =
     \<lparr>mqttexampleTOPIC = [0x74],
      democonfigCLIENT_IDENTIFIER = [0x63],
      o_FreeRTOS_socket = (\<lambda>k. 1),
      o_FreeRTOS_gethostbyname = (\<lambda>k. 0x0100007F),
      o_FreeRTOS_connect = (\<lambda>k. 0),
      o_FreeRTOS_send = (\<lambda>k bs. int (length bs)),
      o_FreeRTOS_recv =
        (\<lambda>k n. if k < length bodies then (int (length (bodies ! k)), bodies ! k)
               else (- 22, [])),
      o_RetryUtils_BackoffAndSleep = (\<lambda>k. RetryUtilsSuccess),
      o_MQTT_GetIncomingPacketTypeAndLength = script headers (MQTTNoDataAvailable, 0, 0),
      o_MQTT_DeserializeAck = deserializeAck,
      o_MQTT_DeserializePublish = lib_DeserializePublish,
      o_MQTT_GetConnectPacketSize = (\<lambda>c. (MQTTSuccess, 13, 15)),
      o_MQTT_SerializeConnect =
        (\<lambda>c n. (MQTTSuccess, [0x10, 13, 0, 4, 0x4D, 0x51, 0x54, 0x54, 4, 2, 0, 10, 0, 1, 0x63])),
      o_MQTT_GetSubscribePacketSize = (\<lambda>subs. (MQTTSuccess, 6, 8)),
      o_MQTT_SerializeSubscribe =
        (\<lambda>subs i n. (MQTTSuccess, [0x82, 6, ucast (drop_bit 8 i), ucast i, 0, 1, 0x74, 0])),
      o_MQTT_GetUnsubscribePacketSize = (\<lambda>subs. (MQTTSuccess, 5, 7)),
      o_MQTT_SerializeUnsubscribe =
        (\<lambda>subs i n. (MQTTSuccess, [0xA2, 5, ucast (drop_bit 8 i), ucast i, 0, 1, 0x74])),
      o_MQTT_GetPublishPacketSize = (\<lambda>p. (MQTTSuccess, 33, 35)),
      o_MQTT_SerializePublishHeader = (\<lambda>p i n. (MQTTSuccess, [0x30, 33, 0, 1, 0x74], 5)),
      o_MQTT_GetPingreqPacketSize = (MQTTSuccess, 2),
      o_MQTT_SerializePingreq = (MQTTSuccess, [0xC0, 0]),
      o_MQTT_GetDisconnectPacketSize = (MQTTSuccess, 2),
      o_MQTT_SerializeDisconnect = (MQTTSuccess, [0xE0, 0])\<rparr>"

text \<open>A broker that sends nothing, and one that answers a PINGREQ.\<close>

definition silent_env :: env where
  "silent_env = test_env [] [] lib_DeserializeAck"

definition pingresp_env :: env where
  "pingresp_env = test_env [(MQTTSuccess, MQTT_PACKET_TYPE_PINGRESP, 0)] [] lib_DeserializeAck"

text \<open>
  A broker whose next packet is a PUBACK with packet identifier 7, and one whose next
  packet is a PUBLISH on topic \<open>"t"\<close> that carries \<open>mqttexampleMESSAGE\<close>.
\<close>

definition puback_env :: env where
  "puback_env = test_env [(MQTTSuccess, 0x40, 2)] [[0, 7]] lib_DeserializeAck"

definition publish_env :: env where
  "publish_env =
     test_env [(MQTTSuccess, 0x30, 33)] [[0, 1, 0x74] @ mqttexampleMESSAGE] lib_DeserializeAck"

text \<open>
  The descriptor that the dispatcher hands to the subscription state tracker for a
  SUBACK whose remaining bytes are \<open>bs\<close>: the data pointer is the shared buffer, which
  holds \<open>bs\<close> at its start.
\<close>

definition suback_descriptor :: "uint8_t list \<Rightarrow> MQTTPacketInfo_t" where
  "suback_descriptor bs =
     \<lparr>packet_type = MQTT_PACKET_TYPE_SUBACK,
      pRemainingData = Some (overwrite bs (replicate mqttexampleSHARED_BUFFER_SIZE 0)),
      remainingLength = length bs\<rparr>"

text \<open>
  A broker through one whole session: CONNACK, SUBACK (accepted), five times the echo
  of the published message and a PINGRESP, and UNSUBACK.
\<close>

definition echo_body :: "uint8_t list" where
  "echo_body = [0, 1, 0x74] @ mqttexampleMESSAGE"

definition session_env :: env where
  "session_env = test_env
     [(MQTTSuccess, 0x20, 2), (MQTTSuccess, 0x90, 3),
      (MQTTSuccess, 0x30, 33), (MQTTSuccess, 0xD0, 0),
      (MQTTSuccess, 0x30, 33), (MQTTSuccess, 0xD0, 0),
      (MQTTSuccess, 0x30, 33), (MQTTSuccess, 0xD0, 0),
      (MQTTSuccess, 0x30, 33), (MQTTSuccess, 0xD0, 0),
      (MQTTSuccess, 0x30, 33), (MQTTSuccess, 0xD0, 0),
      (MQTTSuccess, 0xB0, 2)]
     [[0, 0], [0, 1, 0], echo_body, echo_body, echo_body, echo_body, echo_body, [0, 2]]
     lib_DeserializeAck"

text \<open>
  A broker that rejects the first SUBSCRIBE (SUBACK with status \<open>0x80\<close> for packet
  identifier 1), accepts the second (status \<open>0x00\<close> for packet identifier 2) and then
  sends nothing.
\<close>

definition reject_then_accept_env ::
  "(MQTTPacketInfo_t \<Rightarrow> bool \<Rightarrow> MQTTStatus_t \<times> uint16_t) \<Rightarrow> env" where
  "reject_then_accept_env deserializeAck =
     test_env [(MQTTSuccess, 0x90, 3), (MQTTSuccess, 0x90, 3)]
       [[0, 1, 0x80], [0, 2, 0x00]] deserializeAck"

section \<open>Definitions used to state the properties\<close>

text \<open>The values that \<open>n\<close> successive calls of the allocator return.\<close>

fun prvGetNextPacketIdentifier_calls :: "nat \<Rightarrow> uint16_t list prog" where
  "prvGetNextPacketIdentifier_calls 0 = return []"
| "prvGetNextPacketIdentifier_calls (Suc n) =
     bind prvGetNextPacketIdentifier (\<lambda>i.
     bind (prvGetNextPacketIdentifier_calls n) (\<lambda>ids. return (i # ids)))"

text \<open>
  The calls of the polling phase of a graceful shutdown with at most \<open>n\<close> polls, when
  \<open>k\<close> receive calls have been made before: each poll is a receive call of 20 bytes;
  after a poll whose result is not negative the task sleeps 250 ms and, if polls are
  left, polls again.
\<close>

fun shutdown_polls :: "env \<Rightarrow> Socket_t \<Rightarrow> nat \<Rightarrow> nat \<Rightarrow> call list" where
  "shutdown_polls env xSocket k 0 = []"
| "shutdown_polls env xSocket k (Suc n) =
     C_FreeRTOS_recv xSocket 20 #
     (if fst (o_FreeRTOS_recv env k 20) \<ge> 0
      then C_vTaskDelay 250 # shutdown_polls env xSocket (Suc k) n
      else [])"

text \<open>A state with other remembered packet identifiers.\<close>

definition with_remembered_ids :: "uint16_t \<Rightarrow> uint16_t \<Rightarrow> state \<Rightarrow> state" where
  "with_remembered_ids a b u =
     u\<lparr>usSubscribePacketIdentifier := a, usUnsubscribePacketIdentifier := b\<rparr>"

text \<open>
  What a run shows of the session state: the remembered subscribe and unsubscribe
  identifiers, the allocator's counter, the flags, and the calls made.
\<close>

definition session_view ::
  "state \<Rightarrow> uint16_t \<times> uint16_t \<times> uint16_t \<times> bool list \<times> call list" where
  "session_view u =
     (usSubscribePacketIdentifier u, usUnsubscribePacketIdentifier u, usPacketId u,
      map xSubAckSuccess (xTopicFilterContext u), calls u)"

section \<open>Definitions used in the proofs\<close>

text \<open>
  \<open>pres f m\<close>: the program \<open>m\<close> ends, returned or aborted, in a state with the value
  of \<open>f\<close> it started with. The other predicates say which writes leave \<open>f\<close> alone.
\<close>

definition pres :: "(state \<Rightarrow> 'b) \<Rightarrow> 'a prog \<Rightarrow> bool" where
  "pres f m = (\<forall>s. f (final (m s)) = f s)"

definition ignores_calls :: "(state \<Rightarrow> 'b) \<Rightarrow> bool" where
  "ignores_calls f = (\<forall>u c. f (u\<lparr>calls := c\<rparr>) = f u)"

definition ignores_buffer :: "(state \<Rightarrow> 'b) \<Rightarrow> bool" where
  "ignores_buffer f = (\<forall>u bs. f (u\<lparr>ucSharedBuffer := overwrite bs (ucSharedBuffer u)\<rparr>) = f u)"

definition ignores_flags :: "(state \<Rightarrow> 'b) \<Rightarrow> bool" where
  "ignores_flags f =
     (\<forall>u i b. f (u\<lparr>xTopicFilterContext :=
                 (xTopicFilterContext u)[i := (xTopicFilterContext u ! i)\<lparr>xSubAckSuccess := b\<rparr>]\<rparr>) =
              f u)"

definition ignores_ids :: "(state \<Rightarrow> 'b) \<Rightarrow> bool" where
  "ignores_ids f =
     (\<forall>u i. f (u\<lparr>usPacketId := i\<rparr>) = f u \<and>
            f (u\<lparr>usSubscribePacketIdentifier := i\<rparr>) = f u \<and>
            f (u\<lparr>usUnsubscribePacketIdentifier := i\<rparr>) = f u)"

named_theorems pres_intros

section \<open>Basic facts about programs\<close>

lemma return_apply [simp]: "return x s = Inr (x, s)"
  by (simp add: return_def)

lemma abort_apply [simp]: "abort e s = Inl (e, s)"
  by (simp add: abort_def)

lemma gets_apply [simp]: "gets f s = Inr (f s, s)"
  by (simp add: gets_def)

lemma extern_apply [simp]: "extern c s = Inr ((), s\<lparr>calls := calls s @ [c]\<rparr>)"
  by (simp add: extern_def)

lemma bind_return [simp]: "bind (return x) k = k x"
  by (rule ext) (simp add: bind_def)

lemma bind_abort [simp]: "bind (abort e) k = abort e"
  by (rule ext) (simp add: bind_def)

lemma configASSERT_True [simp]: "configASSERT line True = return ()"
  by (simp add: configASSERT_def)

lemma configASSERT_False [simp]: "configASSERT line False = abort (ConfigAssert line)"
  by (simp add: configASSERT_def)

lemma final_Inr [simp]: "final (Inr (x, s)) = s"
  by (simp add: final_def)

lemma final_Inl [simp]: "final (Inl (e, s)) = s"
  by (simp add: final_def)

lemma ncalls_simps [simp]:
  "ncalls p (s\<lparr>calls := cs\<rparr>) = length (filter p cs)"
  "ncalls p (s\<lparr>ucSharedBuffer := b\<rparr>) = ncalls p s"
  "ncalls p (s\<lparr>usSubscribePacketIdentifier := i\<rparr>) = ncalls p s"
  "ncalls p (s\<lparr>usUnsubscribePacketIdentifier := i\<rparr>) = ncalls p s"
  "ncalls p (s\<lparr>xTopicFilterContext := c\<rparr>) = ncalls p s"
  "ncalls p (s\<lparr>usPacketId := i\<rparr>) = ncalls p s"
  by (simp_all add: ncalls_def)

lemma length_overwrite [simp]: "length (overwrite bs buf) = length buf"
  by (simp add: overwrite_def Let_def)

lemma overwrite_append: "length bs \<le> length buf \<Longrightarrow> overwrite bs buf = bs @ drop (length bs) buf"
  by (simp add: overwrite_def Let_def)

lemma take_overwrite [simp]:
  "n \<le> length bs \<Longrightarrow> length bs \<le> length buf \<Longrightarrow> take n (overwrite bs buf) = take n bs"
  by (simp add: overwrite_append)

lemmas prims =
  LogInfo_def LogWarn_def LogError_def vTaskDelay_def FreeRTOS_shutdown_def
  FreeRTOS_closesocket_def FreeRTOS_recv_def FreeRTOS_send_def FreeRTOS_socket_def
  FreeRTOS_gethostbyname_def FreeRTOS_connect_def RetryUtils_BackoffAndSleep_def
  MQTT_GetIncomingPacketTypeAndLength_def write_ucSharedBuffer_def
  get_xSubAckSuccess_def set_xSubAckSuccess_def read_byte_def
  set_usSubscribePacketIdentifier_def set_usUnsubscribePacketIdentifier_def

lemmas packet_types =
  MQTT_PACKET_TYPE_CONNACK_def MQTT_PACKET_TYPE_PUBLISH_def MQTT_PACKET_TYPE_SUBACK_def
  MQTT_PACKET_TYPE_UNSUBACK_def MQTT_PACKET_TYPE_PINGRESP_def

lemma test_env_simps [simp]:
  "mqttexampleTOPIC (test_env h b d) = [0x74]"
  "democonfigCLIENT_IDENTIFIER (test_env h b d) = [0x63]"
  "o_FreeRTOS_socket (test_env h b d) k = 1"
  "o_FreeRTOS_gethostbyname (test_env h b d) k = 0x0100007F"
  "o_FreeRTOS_connect (test_env h b d) k = 0"
  "o_FreeRTOS_send (test_env h b d) k bs = int (length bs)"
  "o_FreeRTOS_recv (test_env h b d) k n =
     (if k < length b then (int (length (b ! k)), b ! k) else (- 22, []))"
  "o_RetryUtils_BackoffAndSleep (test_env h b d) k = RetryUtilsSuccess"
  "o_MQTT_GetIncomingPacketTypeAndLength (test_env h b d) = script h (MQTTNoDataAvailable, 0, 0)"
  "o_MQTT_DeserializeAck (test_env h b d) = d"
  "o_MQTT_DeserializePublish (test_env h b d) = lib_DeserializePublish"
  "o_MQTT_GetConnectPacketSize (test_env h b d) c = (MQTTSuccess, 13, 15)"
  "o_MQTT_SerializeConnect (test_env h b d) c n =
     (MQTTSuccess, [0x10, 13, 0, 4, 0x4D, 0x51, 0x54, 0x54, 4, 2, 0, 10, 0, 1, 0x63])"
  "o_MQTT_GetSubscribePacketSize (test_env h b d) subs = (MQTTSuccess, 6, 8)"
  "o_MQTT_SerializeSubscribe (test_env h b d) subs i n =
     (MQTTSuccess, [0x82, 6, ucast (drop_bit 8 i), ucast i, 0, 1, 0x74, 0])"
  "o_MQTT_GetUnsubscribePacketSize (test_env h b d) subs = (MQTTSuccess, 5, 7)"
  "o_MQTT_SerializeUnsubscribe (test_env h b d) subs i n =
     (MQTTSuccess, [0xA2, 5, ucast (drop_bit 8 i), ucast i, 0, 1, 0x74])"
  "o_MQTT_GetPublishPacketSize (test_env h b d) p = (MQTTSuccess, 33, 35)"
  "o_MQTT_SerializePublishHeader (test_env h b d) p i n = (MQTTSuccess, [0x30, 33, 0, 1, 0x74], 5)"
  "o_MQTT_GetPingreqPacketSize (test_env h b d) = (MQTTSuccess, 2)"
  "o_MQTT_SerializePingreq (test_env h b d) = (MQTTSuccess, [0xC0, 0])"
  "o_MQTT_GetDisconnectPacketSize (test_env h b d) = (MQTTSuccess, 2)"
  "o_MQTT_SerializeDisconnect (test_env h b d) = (MQTTSuccess, [0xE0, 0])"
  by (simp_all add: test_env_def)

lemma initial_state_simps [simp]:
  "ucSharedBuffer (initial_state env) = replicate mqttexampleSHARED_BUFFER_SIZE 0"
  "usSubscribePacketIdentifier (initial_state env) = 0"
  "usUnsubscribePacketIdentifier (initial_state env) = 0"
  "xTopicFilterContext (initial_state env) =
     [\<lparr>pcTopicFilter = mqttexampleTOPIC env, xSubAckSuccess = False\<rparr>]"
  "usPacketId (initial_state env) = 0"
  "calls (initial_state env) = []"
  "ncalls p (initial_state env) = 0"
  by (simp_all add: initial_state_def ncalls_def)

section \<open>The dispatcher: no data, PINGRESP\<close>

text \<open>
  C9. When the header read reports that no data is available, the dispatcher returns
  normally (this is not an error), and the state it returns is the state it was called
  in but for the record of the header read itself: it makes no other call, so it reads
  no further bytes, and the topic filter flags, the packet identifiers and the buffer
  contents are unchanged.
\<close>

theorem prvMQTTProcessIncomingPacket_no_data:
  assumes "fst (o_MQTT_GetIncomingPacketTypeAndLength env (ncalls is_header_read s)) =
             MQTTNoDataAvailable"
  shows "prvMQTTProcessIncomingPacket env xMQTTSocket s =
           Inr ((), s\<lparr>calls := calls s @ [C_MQTT_GetIncomingPacketTypeAndLength xMQTTSocket]\<rparr>)"
proof -
  obtain t n where
    "o_MQTT_GetIncomingPacketTypeAndLength env (ncalls is_header_read s) =
       (MQTTNoDataAvailable, t, n)"
    using assms
    by (cases "o_MQTT_GetIncomingPacketTypeAndLength env (ncalls is_header_read s)") auto
  then show ?thesis
    by (simp add: prvMQTTProcessIncomingPacket_def bind_def prims)
qed

theorem prvMQTTProcessIncomingPacket_no_data_witness:
  "fst (o_MQTT_GetIncomingPacketTypeAndLength silent_env
          (ncalls is_header_read (initial_state silent_env))) = MQTTNoDataAvailable \<and>
   prvMQTTProcessIncomingPacket silent_env 1 (initial_state silent_env) =
     Inr ((), (initial_state silent_env)\<lparr>calls := [C_MQTT_GetIncomingPacketTypeAndLength 1]\<rparr>)"
proof -
  have h: "fst (o_MQTT_GetIncomingPacketTypeAndLength silent_env
                  (ncalls is_header_read (initial_state silent_env))) = MQTTNoDataAvailable"
    by (simp add: silent_env_def script_def)
  show ?thesis
    using h prvMQTTProcessIncomingPacket_no_data [OF h, of 1] by simp
qed

text \<open>
  C7. When the header read yields type PINGRESP and remaining length 0, the dispatcher
  makes no receive call: when the library's deserializer accepts the packet, the only
  calls are the header read and the log call of the PINGRESP case of
  \<open>prvMQTTProcessResponse\<close> (line 1080), so the packet has reached response handling;
  when the deserializer rejects it, the assertion of line 1181 stops the program after
  the header read alone.
\<close>

theorem prvMQTTProcessIncomingPacket_pingresp:
  assumes "o_MQTT_GetIncomingPacketTypeAndLength env (ncalls is_header_read s) =
             (MQTTSuccess, MQTT_PACKET_TYPE_PINGRESP, 0)"
  shows "prvMQTTProcessIncomingPacket env xMQTTSocket s =
           (if fst (o_MQTT_DeserializeAck env
                      \<lparr>packet_type = MQTT_PACKET_TYPE_PINGRESP, pRemainingData = None,
                       remainingLength = 0\<rparr> False) = MQTTSuccess
            then Inr ((), s\<lparr>calls := calls s @
                     [C_MQTT_GetIncomingPacketTypeAndLength xMQTTSocket, C_LogInfo 1080]\<rparr>)
            else Inl (ConfigAssert 1181, s\<lparr>calls := calls s @
                     [C_MQTT_GetIncomingPacketTypeAndLength xMQTTSocket]\<rparr>)) \<and>
         filter is_recv (calls (final (prvMQTTProcessIncomingPacket env xMQTTSocket s))) =
           filter is_recv (calls s)"
  using assms
  by (simp add: prvMQTTProcessIncomingPacket_def prvMQTTProcessResponse_def bind_def prims
        packet_types split: prod.splits)

theorem prvMQTTProcessIncomingPacket_pingresp_witness:
  "o_MQTT_GetIncomingPacketTypeAndLength pingresp_env
      (ncalls is_header_read (initial_state pingresp_env)) =
     (MQTTSuccess, MQTT_PACKET_TYPE_PINGRESP, 0) \<and>
   prvMQTTProcessIncomingPacket pingresp_env 1 (initial_state pingresp_env) =
     Inr ((), (initial_state pingresp_env)\<lparr>calls :=
               [C_MQTT_GetIncomingPacketTypeAndLength 1, C_LogInfo 1080]\<rparr>)"
proof -
  have h: "o_MQTT_GetIncomingPacketTypeAndLength pingresp_env
             (ncalls is_header_read (initial_state pingresp_env)) =
           (MQTTSuccess, MQTT_PACKET_TYPE_PINGRESP, 0)"
    by (simp add: pingresp_env_def script_def)
  have d: "fst (o_MQTT_DeserializeAck pingresp_env
                  \<lparr>packet_type = MQTT_PACKET_TYPE_PINGRESP, pRemainingData = None,
                   remainingLength = 0\<rparr> False) = MQTTSuccess"
    by (simp add: pingresp_env_def lib_DeserializeAck_def)
  show ?thesis
    using h d prvMQTTProcessIncomingPacket_pingresp [OF h, of 1] by simp
qed

section \<open>C strings\<close>

lemma strlen_literal: "0 \<notin> set a \<Longrightarrow> strlen (a @ [0]) = length a"
  by (induction a) (auto simp: strlen_def)

lemma strncmp_literal:
  "0 \<notin> set a \<Longrightarrow> n \<le> length a \<Longrightarrow> n \<le> length b \<Longrightarrow>
   \<exists>c. strncmp (a @ [0]) b n = Some c \<and> (c = 0 \<longleftrightarrow> take n b = take n a)"
proof (induction n arbitrary: a b)
  case 0
  then show ?case by simp
next
  case (Suc n)
  then obtain x a' where a: "a = x # a'" by (cases a) auto
  from Suc obtain y b' where b: "b = y # b'" by (cases b) auto
  from Suc.prems a have x: "x \<noteq> 0" and a': "0 \<notin> set a'" by auto
  from Suc.prems a b have len: "n \<le> length a'" "n \<le> length b'" by auto
  from Suc.IH[OF a' len] obtain c where
    c: "strncmp (a' @ [0]) b' n = Some c" "(c = 0) = (take n b' = take n a')" by blast
  show ?case
  proof (cases "x = y")
    case True
    with a b x c show ?thesis by simp
  next
    case False
    then have "uint x - uint y \<noteq> 0" by (simp add: word_uint_eq_iff)
    with False a b show ?thesis by auto
  qed
qed

section \<open>The dispatcher: PUBLISH\<close>

lemma prvMQTTProcessIncomingPublish_compare:
  assumes "0 \<notin> set (mqttexampleTOPIC env)"
      and "unat (topicNameLength p) \<le> length (pTopicName p)"
  shows "prvMQTTProcessIncomingPublish env p s =
           Inr ((), s\<lparr>calls := calls s @
                  [C_LogInfo 1097,
                   C_LogInfo (if take (unat (topicNameLength p)) (pTopicName p) =
                                 mqttexampleTOPIC env
                              then 1105 else 1114)]\<rparr>)"
proof (cases "unat (topicNameLength p) = length (mqttexampleTOPIC env)")
  case True
  from strncmp_literal[OF assms(1), of "unat (topicNameLength p)" "pTopicName p"] True assms(2)
  obtain c where
    c: "strncmp (mqttexampleTOPIC env @ [0]) (pTopicName p) (unat (topicNameLength p)) = Some c"
       "(c = 0) = (take (unat (topicNameLength p)) (pTopicName p) =
                   take (unat (topicNameLength p)) (mqttexampleTOPIC env))"
    by auto
  from c(2) True
  have c0: "(0 = c) = (take (unat (topicNameLength p)) (pTopicName p) = mqttexampleTOPIC env)"
    by auto
  show ?thesis using True c(1) c0
    by (simp add: prvMQTTProcessIncomingPublish_def bind_def LogInfo_def
          strlen_literal[OF assms(1)])
next
  case False
  then have "take (unat (topicNameLength p)) (pTopicName p) \<noteq> mqttexampleTOPIC env"
    using assms(2) by (metis length_take min.absorb2)
  with False show ?thesis
    by (simp add: prvMQTTProcessIncomingPublish_def bind_def LogInfo_def
          strlen_literal[OF assms(1)])
qed

lemma prvMQTTProcessIncomingPublish_cases:
  "prvMQTTProcessIncomingPublish env p s \<in>
     {Inr ((), s\<lparr>calls := calls s @ [C_LogInfo 1097, C_LogInfo 1105]\<rparr>),
      Inr ((), s\<lparr>calls := calls s @ [C_LogInfo 1097, C_LogInfo 1114]\<rparr>),
      Inl (OutOfBounds 1101, s\<lparr>calls := calls s @ [C_LogInfo 1097]\<rparr>)}"
  by (simp add: prvMQTTProcessIncomingPublish_def bind_def LogInfo_def split: option.splits)

lemma prvMQTTProcessIncomingPublish_with_remembered_ids:
  "prvMQTTProcessIncomingPublish env p (with_remembered_ids a b s) =
     map_sum (map_prod id (with_remembered_ids a b)) (map_prod id (with_remembered_ids a b))
       (prvMQTTProcessIncomingPublish env p s)"
  by (simp add: prvMQTTProcessIncomingPublish_def bind_def LogInfo_def with_remembered_ids_def
      split: option.splits)

text \<open>The dispatcher on a packet whose type has the high nibble of PUBLISH, step by step.\<close>

lemma publish_branch:
  assumes h: "o_MQTT_GetIncomingPacketTypeAndLength env (ncalls is_header_read s) =
                (MQTTSuccess, t, n)"
      and p: "t AND 0xf0 = MQTT_PACKET_TYPE_PUBLISH"
      and rv: "o_FreeRTOS_recv env (ncalls is_recv s) n = (r, bs)"
      and buf: "buf = overwrite (take n bs) (ucSharedBuffer s)"
      and d: "o_MQTT_DeserializePublish env
                \<lparr>packet_type = t,
                 pRemainingData = (if n > 0 then Some buf else None),
                 remainingLength = n\<rparr> = (xResult, i, info)"
      and s1: "s1 = s\<lparr>calls := calls s @ [C_MQTT_GetIncomingPacketTypeAndLength xMQTTSocket]\<rparr>"
      and s2: "s2 = s\<lparr>calls := calls s @ [C_MQTT_GetIncomingPacketTypeAndLength xMQTTSocket,
                                           C_FreeRTOS_recv xMQTTSocket n],
                       ucSharedBuffer := buf\<rparr>"
  shows "prvMQTTProcessIncomingPacket env xMQTTSocket s =
     (if n \<le> mqttexampleSHARED_BUFFER_SIZE then
        if n > 0 then
          if r = BaseType_of_size n then
            if xResult = MQTTSuccess then prvMQTTProcessIncomingPublish env info s2
            else Inl (ConfigAssert 1168, s2)
          else Inl (ConfigAssert 1160, s2)
        else
          if xResult = MQTTSuccess then prvMQTTProcessIncomingPublish env info s1
          else Inl (ConfigAssert 1168, s1)
      else Inl (ConfigAssert 1148, s1))"
proof (cases "n > 0")
  case True
  with h p rv d show ?thesis
    by (simp add: prvMQTTProcessIncomingPacket_def bind_def
          MQTT_GetIncomingPacketTypeAndLength_def FreeRTOS_recv_def write_ucSharedBuffer_def
          Let_def configASSERT_def s1 s2 buf ncalls_def)
next
  case False
  with h p d show ?thesis
    by (simp add: prvMQTTProcessIncomingPacket_def bind_def
          MQTT_GetIncomingPacketTypeAndLength_def configASSERT_def s1 ncalls_def)
qed

text \<open>
  All the outcomes of the dispatcher on such a packet: \<open>cs\<close> are the calls made before
  publish handling, \<open>b\<close> is the buffer after the body read.
\<close>

lemma publish_branch_outcomes:
  assumes h: "o_MQTT_GetIncomingPacketTypeAndLength env (ncalls is_header_read s) =
                (MQTTSuccess, t, n)"
      and p: "t AND 0xf0 = MQTT_PACKET_TYPE_PUBLISH"
  shows "\<exists>cs b. set cs \<subseteq> {C_MQTT_GetIncomingPacketTypeAndLength xMQTTSocket,
                            C_FreeRTOS_recv xMQTTSocket n} \<and>
           prvMQTTProcessIncomingPacket env xMQTTSocket s \<in>
             {Inl (ConfigAssert 1148, s\<lparr>calls := calls s @ cs, ucSharedBuffer := b\<rparr>),
              Inl (ConfigAssert 1160, s\<lparr>calls := calls s @ cs, ucSharedBuffer := b\<rparr>),
              Inl (ConfigAssert 1168, s\<lparr>calls := calls s @ cs, ucSharedBuffer := b\<rparr>),
              Inl (OutOfBounds 1101,
                   s\<lparr>calls := calls s @ cs @ [C_LogInfo 1097], ucSharedBuffer := b\<rparr>),
              Inr ((), s\<lparr>calls := calls s @ cs @ [C_LogInfo 1097, C_LogInfo 1105],
                         ucSharedBuffer := b\<rparr>),
              Inr ((), s\<lparr>calls := calls s @ cs @ [C_LogInfo 1097, C_LogInfo 1114],
                         ucSharedBuffer := b\<rparr>)}"
proof -
  obtain r bs where rv: "o_FreeRTOS_recv env (ncalls is_recv s) n = (r, bs)"
    by (cases "o_FreeRTOS_recv env (ncalls is_recv s) n") auto
  define buf where "buf = overwrite (take n bs) (ucSharedBuffer s)"
  obtain xResult i info where
    d: "o_MQTT_DeserializePublish env
          \<lparr>packet_type = t, pRemainingData = (if n > 0 then Some buf else None),
           remainingLength = n\<rparr> = (xResult, i, info)"
    by (metis prod_cases3)
  define s1 where
    "s1 = s\<lparr>calls := calls s @ [C_MQTT_GetIncomingPacketTypeAndLength xMQTTSocket]\<rparr>"
  define s2 where
    "s2 = s\<lparr>calls := calls s @ [C_MQTT_GetIncomingPacketTypeAndLength xMQTTSocket,
                                 C_FreeRTOS_recv xMQTTSocket n],
             ucSharedBuffer := buf\<rparr>"
  note eq = publish_branch[OF h p rv buf_def d s1_def s2_def]
  note c1 = prvMQTTProcessIncomingPublish_cases[of env info s1]
  note c2 = prvMQTTProcessIncomingPublish_cases[of env info s2]
  show ?thesis
  proof (cases "n > 0 \<and> n \<le> mqttexampleSHARED_BUFFER_SIZE")
    case True
    show ?thesis
      apply (rule exI[of _ "[C_MQTT_GetIncomingPacketTypeAndLength xMQTTSocket,
                             C_FreeRTOS_recv xMQTTSocket n]"])
      apply (rule exI[of _ buf])
      unfolding eq using True c2 by (auto simp: s2_def)
  next
    case False
    show ?thesis
      apply (rule exI[of _ "[C_MQTT_GetIncomingPacketTypeAndLength xMQTTSocket]"])
      apply (rule exI[of _ "ucSharedBuffer s"])
      unfolding eq using False c1 by (auto simp: s1_def)
  qed
qed

text \<open>
  C8. When the header read yields a type whose high nibble is that of PUBLISH, whatever
  the packet's body is: (1) the outcome of the dispatcher does not depend on the
  remembered subscribe and unsubscribe packet identifiers; (2) the program never stops
  at one of the two packet identifier assertions (lines 1070 and 1076); (3) the
  dispatcher makes no call but the header read, the body read and the log calls of
  publish handling (lines 1097, 1105, 1114), so none of response handling; (4) when
  it returns, publish handling has run (its first log call, line 1097, was made).
\<close>

theorem prvMQTTProcessIncomingPacket_publish_no_identifier_check:
  assumes h: "o_MQTT_GetIncomingPacketTypeAndLength env (ncalls is_header_read s) =
                (MQTTSuccess, t, n)"
      and p: "t AND 0xf0 = MQTT_PACKET_TYPE_PUBLISH"
  shows "prvMQTTProcessIncomingPacket env xMQTTSocket (with_remembered_ids a b s) =
           map_sum (map_prod id (with_remembered_ids a b)) (map_prod id (with_remembered_ids a b))
             (prvMQTTProcessIncomingPacket env xMQTTSocket s) \<and>
         (\<forall>u. prvMQTTProcessIncomingPacket env xMQTTSocket s \<noteq> Inl (ConfigAssert 1070, u) \<and>
              prvMQTTProcessIncomingPacket env xMQTTSocket s \<noteq> Inl (ConfigAssert 1076, u)) \<and>
         set (drop (length (calls s))
               (calls (final (prvMQTTProcessIncomingPacket env xMQTTSocket s)))) \<subseteq>
           {C_MQTT_GetIncomingPacketTypeAndLength xMQTTSocket, C_FreeRTOS_recv xMQTTSocket n,
            C_LogInfo 1097, C_LogInfo 1105, C_LogInfo 1114} \<and>
         (\<forall>s'. prvMQTTProcessIncomingPacket env xMQTTSocket s = Inr ((), s') \<longrightarrow>
               C_LogInfo 1097 \<in> set (drop (length (calls s)) (calls s')))"
proof -
  obtain r bs where rv: "o_FreeRTOS_recv env (ncalls is_recv s) n = (r, bs)"
    by (cases "o_FreeRTOS_recv env (ncalls is_recv s) n") auto
  define buf where "buf = overwrite (take n bs) (ucSharedBuffer s)"
  obtain xResult i info where
    d: "o_MQTT_DeserializePublish env
          \<lparr>packet_type = t, pRemainingData = (if n > 0 then Some buf else None),
           remainingLength = n\<rparr> = (xResult, i, info)"
    by (metis prod_cases3)
  define s1 where
    "s1 = s\<lparr>calls := calls s @ [C_MQTT_GetIncomingPacketTypeAndLength xMQTTSocket]\<rparr>"
  define s2 where
    "s2 = s\<lparr>calls := calls s @ [C_MQTT_GetIncomingPacketTypeAndLength xMQTTSocket,
                                 C_FreeRTOS_recv xMQTTSocket n],
             ucSharedBuffer := buf\<rparr>"
  let ?w = "with_remembered_ids a b"
  note eq = publish_branch[OF h p rv buf_def d s1_def s2_def]
  have h': "o_MQTT_GetIncomingPacketTypeAndLength env (ncalls is_header_read (?w s)) =
              (MQTTSuccess, t, n)"
    using h by (simp add: with_remembered_ids_def)
  have rv': "o_FreeRTOS_recv env (ncalls is_recv (?w s)) n = (r, bs)"
    using rv by (simp add: with_remembered_ids_def)
  have buf': "buf = overwrite (take n bs) (ucSharedBuffer (?w s))"
    by (simp add: buf_def with_remembered_ids_def)
  have s1': "?w s1 = (?w s)\<lparr>calls := calls (?w s) @
                                [C_MQTT_GetIncomingPacketTypeAndLength xMQTTSocket]\<rparr>"
    by (simp add: s1_def with_remembered_ids_def)
  have s2': "?w s2 = (?w s)\<lparr>calls := calls (?w s) @
                                [C_MQTT_GetIncomingPacketTypeAndLength xMQTTSocket,
                                 C_FreeRTOS_recv xMQTTSocket n],
                            ucSharedBuffer := buf\<rparr>"
    by (simp add: s2_def with_remembered_ids_def)
  note eq' = publish_branch[OF h' p rv' buf' d s1' s2']
  have independent:
    "prvMQTTProcessIncomingPacket env xMQTTSocket (?w s) =
       map_sum (map_prod id ?w) (map_prod id ?w) (prvMQTTProcessIncomingPacket env xMQTTSocket s)"
    unfolding eq eq' by (simp add: prvMQTTProcessIncomingPublish_with_remembered_ids)
  from publish_branch_outcomes[OF h p, of xMQTTSocket] obtain cs b' where
    o: "set cs \<subseteq> {C_MQTT_GetIncomingPacketTypeAndLength xMQTTSocket,
                   C_FreeRTOS_recv xMQTTSocket n}"
       "prvMQTTProcessIncomingPacket env xMQTTSocket s \<in>
          {Inl (ConfigAssert 1148, s\<lparr>calls := calls s @ cs, ucSharedBuffer := b'\<rparr>),
           Inl (ConfigAssert 1160, s\<lparr>calls := calls s @ cs, ucSharedBuffer := b'\<rparr>),
           Inl (ConfigAssert 1168, s\<lparr>calls := calls s @ cs, ucSharedBuffer := b'\<rparr>),
           Inl (OutOfBounds 1101,
                s\<lparr>calls := calls s @ cs @ [C_LogInfo 1097], ucSharedBuffer := b'\<rparr>),
           Inr ((), s\<lparr>calls := calls s @ cs @ [C_LogInfo 1097, C_LogInfo 1105],
                      ucSharedBuffer := b'\<rparr>),
           Inr ((), s\<lparr>calls := calls s @ cs @ [C_LogInfo 1097, C_LogInfo 1114],
                      ucSharedBuffer := b'\<rparr>)}"
    by blast
  have no_check:
    "\<forall>u. prvMQTTProcessIncomingPacket env xMQTTSocket s \<noteq> Inl (ConfigAssert 1070, u) \<and>
         prvMQTTProcessIncomingPacket env xMQTTSocket s \<noteq> Inl (ConfigAssert 1076, u)"
    using o(2) by auto
  have only_calls:
    "set (drop (length (calls s))
            (calls (final (prvMQTTProcessIncomingPacket env xMQTTSocket s)))) \<subseteq>
       {C_MQTT_GetIncomingPacketTypeAndLength xMQTTSocket, C_FreeRTOS_recv xMQTTSocket n,
        C_LogInfo 1097, C_LogInfo 1105, C_LogInfo 1114}"
    using o by auto
  have handled:
    "\<forall>s'. prvMQTTProcessIncomingPacket env xMQTTSocket s = Inr ((), s') \<longrightarrow>
          C_LogInfo 1097 \<in> set (drop (length (calls s)) (calls s'))"
    using o(2) by auto
  from independent no_check only_calls handled show ?thesis by blast
qed

lemma publish_env_run:
  "prvMQTTProcessIncomingPacket publish_env 1 (initial_state publish_env) =
     Inr ((), (initial_state publish_env)\<lparr>calls :=
            [C_MQTT_GetIncomingPacketTypeAndLength 1, C_FreeRTOS_recv 1 33,
             C_LogInfo 1097, C_LogInfo 1105],
            ucSharedBuffer := [0, 1, 0x74] @ mqttexampleMESSAGE @ replicate 467 0\<rparr>)"
  by (simp add: publish_env_def script_def prvMQTTProcessIncomingPacket_def
        prvMQTTProcessIncomingPublish_def bind_def prims packet_types
        mqttexampleSHARED_BUFFER_SIZE_def BaseType_of_size_def lib_DeserializePublish_def
        packet_id_of_def mqttexampleMESSAGE_def strlen_def overwrite_def Let_def)

theorem prvMQTTProcessIncomingPacket_publish_no_identifier_check_witness:
  "o_MQTT_GetIncomingPacketTypeAndLength publish_env
     (ncalls is_header_read (initial_state publish_env)) = (MQTTSuccess, 0x30, 33) \<and>
   (0x30 :: uint8_t) AND 0xf0 = MQTT_PACKET_TYPE_PUBLISH \<and>
   prvMQTTProcessIncomingPacket publish_env 1
       (with_remembered_ids 5 6 (initial_state publish_env)) =
     Inr ((), with_remembered_ids 5 6 ((initial_state publish_env)\<lparr>calls :=
            [C_MQTT_GetIncomingPacketTypeAndLength 1, C_FreeRTOS_recv 1 33,
             C_LogInfo 1097, C_LogInfo 1105],
            ucSharedBuffer := [0, 1, 0x74] @ mqttexampleMESSAGE @ replicate 467 0\<rparr>))"
proof -
  have h: "o_MQTT_GetIncomingPacketTypeAndLength publish_env
             (ncalls is_header_read (initial_state publish_env)) = (MQTTSuccess, 0x30, 33)"
    by (simp add: publish_env_def script_def)
  have p: "(0x30 :: uint8_t) AND 0xf0 = MQTT_PACKET_TYPE_PUBLISH"
    by (simp add: MQTT_PACKET_TYPE_PUBLISH_def)
  show ?thesis
    using h p prvMQTTProcessIncomingPacket_publish_no_identifier_check [OF h p, of 1 5 6]
    by (simp add: publish_env_run MQTT_PACKET_TYPE_PUBLISH_def)
qed

text \<open>
  C10. Processing an incoming PUBLISH packet leaves the session state unchanged: in
  the state the dispatcher ends in (returned or aborted), every topic filter context,
  the remembered subscribe and unsubscribe packet identifiers and the allocator's
  counter are as before. Publish handling itself only logs: when the configured topic
  contains no zero byte and the received name has the length the packet gives, it logs
  line 1105 if the received topic name equals the configured topic byte for byte, and
  line 1114 otherwise, and changes nothing else.
\<close>

theorem prvMQTTProcessIncomingPacket_publish_frame:
  assumes h: "o_MQTT_GetIncomingPacketTypeAndLength env (ncalls is_header_read s) =
                (MQTTSuccess, t, n)"
      and p: "t AND 0xf0 = MQTT_PACKET_TYPE_PUBLISH"
  shows "xTopicFilterContext (final (prvMQTTProcessIncomingPacket env xMQTTSocket s)) =
           xTopicFilterContext s \<and>
         usSubscribePacketIdentifier (final (prvMQTTProcessIncomingPacket env xMQTTSocket s)) =
           usSubscribePacketIdentifier s \<and>
         usUnsubscribePacketIdentifier (final (prvMQTTProcessIncomingPacket env xMQTTSocket s)) =
           usUnsubscribePacketIdentifier s \<and>
         usPacketId (final (prvMQTTProcessIncomingPacket env xMQTTSocket s)) = usPacketId s \<and>
         (0 \<notin> set (mqttexampleTOPIC env) \<longrightarrow>
          unat (topicNameLength info) \<le> length (pTopicName info) \<longrightarrow>
            prvMQTTProcessIncomingPublish env info u =
              Inr ((), u\<lparr>calls := calls u @
                     [C_LogInfo 1097,
                      C_LogInfo (if take (unat (topicNameLength info)) (pTopicName info) =
                                    mqttexampleTOPIC env
                                 then 1105 else 1114)]\<rparr>))"
proof -
  from publish_branch_outcomes[OF h p, of xMQTTSocket] obtain cs b' where
    o: "prvMQTTProcessIncomingPacket env xMQTTSocket s \<in>
          {Inl (ConfigAssert 1148, s\<lparr>calls := calls s @ cs, ucSharedBuffer := b'\<rparr>),
           Inl (ConfigAssert 1160, s\<lparr>calls := calls s @ cs, ucSharedBuffer := b'\<rparr>),
           Inl (ConfigAssert 1168, s\<lparr>calls := calls s @ cs, ucSharedBuffer := b'\<rparr>),
           Inl (OutOfBounds 1101,
                s\<lparr>calls := calls s @ cs @ [C_LogInfo 1097], ucSharedBuffer := b'\<rparr>),
           Inr ((), s\<lparr>calls := calls s @ cs @ [C_LogInfo 1097, C_LogInfo 1105],
                      ucSharedBuffer := b'\<rparr>),
           Inr ((), s\<lparr>calls := calls s @ cs @ [C_LogInfo 1097, C_LogInfo 1114],
                      ucSharedBuffer := b'\<rparr>)}"
    by blast
  have frame:
    "xTopicFilterContext (final (prvMQTTProcessIncomingPacket env xMQTTSocket s)) =
       xTopicFilterContext s \<and>
     usSubscribePacketIdentifier (final (prvMQTTProcessIncomingPacket env xMQTTSocket s)) =
       usSubscribePacketIdentifier s \<and>
     usUnsubscribePacketIdentifier (final (prvMQTTProcessIncomingPacket env xMQTTSocket s)) =
       usUnsubscribePacketIdentifier s \<and>
     usPacketId (final (prvMQTTProcessIncomingPacket env xMQTTSocket s)) = usPacketId s"
    using o by auto
  show ?thesis
    using frame prvMQTTProcessIncomingPublish_compare[of env info u] by blast
qed

theorem prvMQTTProcessIncomingPacket_publish_frame_witness:
  "o_MQTT_GetIncomingPacketTypeAndLength publish_env
     (ncalls is_header_read (initial_state publish_env)) = (MQTTSuccess, 0x30, 33) \<and>
   (0x30 :: uint8_t) AND 0xf0 = MQTT_PACKET_TYPE_PUBLISH \<and>
   0 \<notin> set (mqttexampleTOPIC publish_env) \<and>
   xTopicFilterContext (final (prvMQTTProcessIncomingPacket publish_env 1
       (initial_state publish_env))) = [\<lparr>pcTopicFilter = [0x74], xSubAckSuccess = False\<rparr>] \<and>
   usPacketId (final (prvMQTTProcessIncomingPacket publish_env 1
       (initial_state publish_env))) = 0 \<and>
   prvMQTTProcessIncomingPublish publish_env
       \<lparr>qos = MQTTQoS0, retain = False, pTopicName = [0x74, 0x48], topicNameLength = 1,
        pPayload = [0x48], payloadLength = 1\<rparr> (initial_state publish_env) =
     Inr ((), (initial_state publish_env)\<lparr>calls := [C_LogInfo 1097, C_LogInfo 1105]\<rparr>)"
proof -
  have h: "o_MQTT_GetIncomingPacketTypeAndLength publish_env
             (ncalls is_header_read (initial_state publish_env)) = (MQTTSuccess, 0x30, 33)"
    by (simp add: publish_env_def script_def)
  have p: "(0x30 :: uint8_t) AND 0xf0 = MQTT_PACKET_TYPE_PUBLISH"
    by (simp add: MQTT_PACKET_TYPE_PUBLISH_def)
  have z: "0 \<notin> set (mqttexampleTOPIC publish_env)"
    by (simp add: publish_env_def)
  show ?thesis
    using h p z
      prvMQTTProcessIncomingPacket_publish_frame [OF h p, of 1
        "\<lparr>qos = MQTTQoS0, retain = False, pTopicName = [0x74, 0x48], topicNameLength = 1,
          pPayload = [0x48], payloadLength = 1\<rparr>" "initial_state publish_env"]
    by (simp add: publish_env_def MQTT_PACKET_TYPE_PUBLISH_def)
qed

section \<open>Response handling\<close>

text \<open>
  C5 (as amended). In response handling, a SUBACK whose packet identifier differs from
  the remembered subscribe identifier stops the program (assertion of line 1070), and
  so does an UNSUBACK whose identifier differs from the remembered unsubscribe
  identifier (line 1076); a PINGRESP is accepted whatever the identifier is; a packet
  of any other type is not fatal: response handling logs a warning (line 1085) and
  returns.
\<close>

theorem prvMQTTProcessResponse_outcomes:
  "(packet_type p = MQTT_PACKET_TYPE_SUBACK \<longrightarrow>
      length (xTopicFilterContext s) = mqttexampleTOPIC_COUNT \<longrightarrow>
      i \<noteq> usSubscribePacketIdentifier s \<longrightarrow>
      (\<exists>u. prvMQTTProcessResponse p i s = Inl (ConfigAssert 1070, u))) \<and>
   (packet_type p = MQTT_PACKET_TYPE_UNSUBACK \<longrightarrow>
      i \<noteq> usUnsubscribePacketIdentifier s \<longrightarrow>
      prvMQTTProcessResponse p i s =
        Inl (ConfigAssert 1076, s\<lparr>calls := calls s @ [C_LogInfo 1074]\<rparr>)) \<and>
   (packet_type p = MQTT_PACKET_TYPE_PINGRESP \<longrightarrow>
      prvMQTTProcessResponse p i s = Inr ((), s\<lparr>calls := calls s @ [C_LogInfo 1080]\<rparr>)) \<and>
   (packet_type p \<noteq> MQTT_PACKET_TYPE_SUBACK \<longrightarrow>
    packet_type p \<noteq> MQTT_PACKET_TYPE_UNSUBACK \<longrightarrow>
    packet_type p \<noteq> MQTT_PACKET_TYPE_PINGRESP \<longrightarrow>
      prvMQTTProcessResponse p i s = Inr ((), s\<lparr>calls := calls s @ [C_LogWarn 1085]\<rparr>))"
  by (auto simp: prvMQTTProcessResponse_def bind_def prims packet_types
        mqttexampleTOPIC_COUNT_def configASSERT_def)

theorem prvMQTTProcessResponse_outcomes_witness:
  "prvMQTTProcessResponse
      \<lparr>packet_type = MQTT_PACKET_TYPE_SUBACK, pRemainingData = None, remainingLength = 0\<rparr>
      5 (initial_state silent_env) = Inl (ConfigAssert 1070, initial_state silent_env) \<and>
   prvMQTTProcessResponse
      \<lparr>packet_type = MQTT_PACKET_TYPE_UNSUBACK, pRemainingData = None, remainingLength = 0\<rparr>
      5 (initial_state silent_env) =
     Inl (ConfigAssert 1076, (initial_state silent_env)\<lparr>calls := [C_LogInfo 1074]\<rparr>) \<and>
   prvMQTTProcessResponse
      \<lparr>packet_type = MQTT_PACKET_TYPE_PINGRESP, pRemainingData = None, remainingLength = 0\<rparr>
      5 (initial_state silent_env) =
     Inr ((), (initial_state silent_env)\<lparr>calls := [C_LogInfo 1080]\<rparr>) \<and>
   prvMQTTProcessResponse
      \<lparr>packet_type = 0x40, pRemainingData = None, remainingLength = 0\<rparr>
      5 (initial_state silent_env) =
     Inr ((), (initial_state silent_env)\<lparr>calls := [C_LogWarn 1085]\<rparr>)"
  using
    prvMQTTProcessResponse_outcomes [of
      "\<lparr>packet_type = MQTT_PACKET_TYPE_SUBACK, pRemainingData = None, remainingLength = 0\<rparr>"
      "initial_state silent_env" 5]
    prvMQTTProcessResponse_outcomes [of
      "\<lparr>packet_type = MQTT_PACKET_TYPE_UNSUBACK, pRemainingData = None, remainingLength = 0\<rparr>"
      "initial_state silent_env" 5]
    prvMQTTProcessResponse_outcomes [of
      "\<lparr>packet_type = MQTT_PACKET_TYPE_PINGRESP, pRemainingData = None, remainingLength = 0\<rparr>"
      "initial_state silent_env" 5]
    prvMQTTProcessResponse_outcomes [of
      "\<lparr>packet_type = 0x40, pRemainingData = None, remainingLength = 0\<rparr>"
      "initial_state silent_env" 5]
  by (simp add: prvMQTTProcessResponse_def bind_def prims packet_types
        mqttexampleTOPIC_COUNT_def)

text \<open>
  The claim C5 as stated fails: a PUBACK (type \<open>0x40\<close>: not SUBACK, UNSUBACK, PINGRESP
  or PUBLISH) that the deserializer accepts goes through the dispatcher and response
  handling, and the program goes on.
\<close>

theorem unexpected_packet_type_not_fatal:
  "(0x40 :: uint8_t) \<noteq> MQTT_PACKET_TYPE_SUBACK \<and>
   (0x40 :: uint8_t) \<noteq> MQTT_PACKET_TYPE_UNSUBACK \<and>
   (0x40 :: uint8_t) \<noteq> MQTT_PACKET_TYPE_PINGRESP \<and>
   (0x40 :: uint8_t) AND 0xf0 \<noteq> MQTT_PACKET_TYPE_PUBLISH \<and>
   o_MQTT_GetIncomingPacketTypeAndLength puback_env
     (ncalls is_header_read (initial_state puback_env)) = (MQTTSuccess, 0x40, 2) \<and>
   prvMQTTProcessIncomingPacket puback_env 1 (initial_state puback_env) =
     Inr ((), (initial_state puback_env)\<lparr>calls :=
            [C_MQTT_GetIncomingPacketTypeAndLength 1, C_FreeRTOS_recv 1 2, C_LogWarn 1085],
            ucSharedBuffer := [0, 7] @ replicate 498 0\<rparr>)"
  by (simp add: puback_env_def script_def prvMQTTProcessIncomingPacket_def
        prvMQTTProcessResponse_def bind_def prims packet_types
        mqttexampleSHARED_BUFFER_SIZE_def BaseType_of_size_def lib_DeserializeAck_def
        packet_id_of_def overwrite_def Let_def)

section \<open>Graceful shutdown\<close>

declare prvGracefulShutDown_loop.simps [simp del]

lemma shutdown_loop_2:
  "prvGracefulShutDown_loop env x 2 s =
     Inr ((), s\<lparr>calls := calls s @ shutdown_polls env x (ncalls is_recv s) (Suc 0)\<rparr>)"
  by (subst prvGracefulShutDown_loop.simps)
     (simp add: FreeRTOS_recv_def vTaskDelay_def xShortDelay_def
        mqttexampleMAX_SOCKET_SHUTDOWN_LOOPS_def split: prod.splits)

lemma shutdown_loop_1:
  "prvGracefulShutDown_loop env x 1 s =
     Inr ((), s\<lparr>calls := calls s @ shutdown_polls env x (ncalls is_recv s) (Suc (Suc 0))\<rparr>)"
  by (subst prvGracefulShutDown_loop.simps)
     (simp add: FreeRTOS_recv_def vTaskDelay_def xShortDelay_def shutdown_loop_2 ncalls_def
        mqttexampleMAX_SOCKET_SHUTDOWN_LOOPS_def split: prod.splits)

lemma shutdown_loop_0:
  "prvGracefulShutDown_loop env x 0 s =
     Inr ((), s\<lparr>calls := calls s @
               shutdown_polls env x (ncalls is_recv s) (Suc (Suc (Suc 0)))\<rparr>)"
  by (subst prvGracefulShutDown_loop.simps)
     (simp add: FreeRTOS_recv_def vTaskDelay_def xShortDelay_def shutdown_loop_1 ncalls_def
        mqttexampleMAX_SOCKET_SHUTDOWN_LOOPS_def split: prod.splits)

lemma shutdown_polls_bound: "length (filter is_recv (shutdown_polls env x k n)) \<le> n"
  by (induction n arbitrary: k) auto

text \<open>
  The two handles that \<open>prvGracefulShutDown\<close> guards against are not passed to it: its
  only call, at line 469, passes the handle of which line 415 has asserted that it is not
  \<open>FREERTOS_INVALID_SOCKET\<close>, and that handle is the one \<open>FreeRTOS_socket\<close> returned,
  which is a socket or \<open>FREERTOS_INVALID_SOCKET\<close>, not null.
\<close>

lemma prvMQTTDemoTask_iteration_socket:
  assumes "prvMQTTDemoTask_iteration fuel env s = Inr ((), s')"
  shows "\<exists>xMQTTSocket t. prvConnectToServerWithBackoffRetries fuel env s = Inr (xMQTTSocket, t) \<and>
           xMQTTSocket \<noteq> FREERTOS_INVALID_SOCKET"
  using assms unfolding prvMQTTDemoTask_iteration_def
  by (auto simp: bind_def configASSERT_def split: sum.splits if_splits)

lemma prvGracefulShutDown_guard:
  "xSocket = 0 \<or> xSocket = FREERTOS_INVALID_SOCKET \<Longrightarrow>
   prvGracefulShutDown env xSocket s = Inr ((), s)"
  by (auto simp: prvGracefulShutDown_def)

text \<open>
  C6. For every socket handle passed to graceful shutdown, that is, for every handle
  that is neither null nor \<open>FREERTOS_INVALID_SOCKET\<close>, graceful shutdown never aborts and
  makes exactly these calls, in this order: the read+write shutdown of the socket; then the polls: at most
  3 receive calls, which end at the first negative result, with a sleep of 250 ms after
  every poll whose result is not negative (also after the third); then, in every case,
  the close of the socket. Nothing else of the state changes.
\<close>

theorem prvGracefulShutDown_valid_socket:
  assumes "xSocket \<noteq> 0" and "xSocket \<noteq> FREERTOS_INVALID_SOCKET"
  shows "prvGracefulShutDown env xSocket s =
           Inr ((), s\<lparr>calls := calls s @
                  C_FreeRTOS_shutdown xSocket FREERTOS_SHUT_RDWR #
                  shutdown_polls env xSocket (ncalls is_recv s) 3 @
                  [C_FreeRTOS_closesocket xSocket]\<rparr>) \<and>
         length (filter is_recv (shutdown_polls env xSocket (ncalls is_recv s) 3)) \<le> 3"
  using assms shutdown_polls_bound[of env xSocket "ncalls is_recv s" 3]
  by (simp add: prvGracefulShutDown_def bind_def FreeRTOS_shutdown_def FreeRTOS_closesocket_def
        shutdown_loop_0 numeral_3_eq_3 ncalls_def)

theorem prvGracefulShutDown_valid_socket_witness:
  "(1 :: Socket_t) \<noteq> 0 \<and> (1 :: Socket_t) \<noteq> FREERTOS_INVALID_SOCKET \<and>
   prvGracefulShutDown silent_env 1 (initial_state silent_env) =
     Inr ((), (initial_state silent_env)\<lparr>calls :=
        [C_FreeRTOS_shutdown 1 FREERTOS_SHUT_RDWR, C_FreeRTOS_recv 1 20,
         C_FreeRTOS_closesocket 1]\<rparr>)"
proof -
  have a: "(1 :: Socket_t) \<noteq> 0" by simp
  have b: "(1 :: Socket_t) \<noteq> FREERTOS_INVALID_SOCKET"
    by (simp add: FREERTOS_INVALID_SOCKET_def)
  show ?thesis
    using a b prvGracefulShutDown_valid_socket [OF a b, of silent_env "initial_state silent_env"]
    by (simp add: numeral_3_eq_3 silent_env_def)
qed

section \<open>The subscription state tracker\<close>

lemma upt_two: "2 \<le> n \<Longrightarrow> [0..<n] = 0 # Suc 0 # [2..<n]"
  by (simp add: upt_conv_Cons numeral_2_eq_2)

text \<open>
  C1 (as amended). For every SUBACK descriptor with remaining length of at least 3 that
  \<open>prvMQTTUpdateSubAckStatus\<close> processes in a state of the program, which has one Topic
  Filter Context entry per topic filter (\<open>mqttexampleTOPIC_COUNT\<close>, which is 1):

  \<^item> when the packet carries no more status bytes than there are entries, the function
    returns, the i-th status byte after the 2-byte identifier determines the success
    flag of entry i (false when the bit \<open>0x80\<close> of the byte is set, true otherwise), and
    nothing else changes;

  \<^item> when the packet carries more status bytes than there are entries, the function does
    not return: it accesses the Topic Filter Context, or the packet data, out of range.
\<close>

theorem prvMQTTUpdateSubAckStatus_flags:
  assumes "packet_type pxPacketInfo = MQTT_PACKET_TYPE_SUBACK"
      and "pRemainingData pxPacketInfo = Some bs"
      and "3 \<le> remainingLength pxPacketInfo"
      and "remainingLength pxPacketInfo \<le> length bs"
      and "length (xTopicFilterContext s) = mqttexampleTOPIC_COUNT"
  shows "(remainingLength pxPacketInfo - 2 \<le> mqttexampleTOPIC_COUNT \<longrightarrow>
            prvMQTTUpdateSubAckStatus pxPacketInfo s =
              Inr ((), s\<lparr>xTopicFilterContext :=
                          [(xTopicFilterContext s ! 0)\<lparr>xSubAckSuccess := (bs ! 2 AND 0x80 = 0)\<rparr>]\<rparr>) \<and>
            (\<forall>i < remainingLength pxPacketInfo - 2.
               xSubAckSuccess
                 (xTopicFilterContext (final (prvMQTTUpdateSubAckStatus pxPacketInfo s)) ! i) =
               (bs ! (2 + i) AND 0x80 = 0))) \<and>
         (mqttexampleTOPIC_COUNT < remainingLength pxPacketInfo - 2 \<longrightarrow>
            (\<exists>l t. prvMQTTUpdateSubAckStatus pxPacketInfo s = Inl (OutOfBounds l, t)))"
proof -
  from assms(5) obtain c where ctx: "xTopicFilterContext s = [c]"
    by (cases "xTopicFilterContext s") (auto simp: mqttexampleTOPIC_COUNT_def)
  have one: "prvMQTTUpdateSubAckStatus pxPacketInfo s =
      Inr ((), s\<lparr>xTopicFilterContext := [c\<lparr>xSubAckSuccess := (bs ! 2 AND 0x80 = 0)\<rparr>]\<rparr>)"
    if "remainingLength pxPacketInfo = 3"
    using assms(1,2,4) that
    by (simp add: prvMQTTUpdateSubAckStatus_def bind_def read_byte_def set_xSubAckSuccess_def ctx
          Let_def)
  have more: "\<exists>l t. prvMQTTUpdateSubAckStatus pxPacketInfo s = Inl (OutOfBounds l, t)"
    if "2 \<le> remainingLength pxPacketInfo - 2"
    using assms(1,2,3,4) that
    by (auto simp: prvMQTTUpdateSubAckStatus_def bind_def read_byte_def set_xSubAckSuccess_def ctx
          upt_two Let_def)
  have first: "remainingLength pxPacketInfo - 2 \<le> mqttexampleTOPIC_COUNT \<longrightarrow>
            prvMQTTUpdateSubAckStatus pxPacketInfo s =
              Inr ((), s\<lparr>xTopicFilterContext :=
                          [(xTopicFilterContext s ! 0)\<lparr>xSubAckSuccess := (bs ! 2 AND 0x80 = 0)\<rparr>]\<rparr>) \<and>
            (\<forall>i < remainingLength pxPacketInfo - 2.
               xSubAckSuccess
                 (xTopicFilterContext (final (prvMQTTUpdateSubAckStatus pxPacketInfo s)) ! i) =
               (bs ! (2 + i) AND 0x80 = 0))"
  proof
    assume "remainingLength pxPacketInfo - 2 \<le> mqttexampleTOPIC_COUNT"
    with assms(3) have eq: "remainingLength pxPacketInfo = 3"
      by (simp add: mqttexampleTOPIC_COUNT_def)
    show "prvMQTTUpdateSubAckStatus pxPacketInfo s =
              Inr ((), s\<lparr>xTopicFilterContext :=
                          [(xTopicFilterContext s ! 0)\<lparr>xSubAckSuccess := (bs ! 2 AND 0x80 = 0)\<rparr>]\<rparr>) \<and>
            (\<forall>i < remainingLength pxPacketInfo - 2.
               xSubAckSuccess
                 (xTopicFilterContext (final (prvMQTTUpdateSubAckStatus pxPacketInfo s)) ! i) =
               (bs ! (2 + i) AND 0x80 = 0))"
      by (simp add: one[OF eq] eq ctx)
  qed
  have second: "mqttexampleTOPIC_COUNT < remainingLength pxPacketInfo - 2 \<longrightarrow>
            (\<exists>l t. prvMQTTUpdateSubAckStatus pxPacketInfo s = Inl (OutOfBounds l, t))"
    using more by (simp add: mqttexampleTOPIC_COUNT_def)
  from first second show ?thesis by (rule conjI)
qed

text \<open>
  The theorem at the program's initial state: a SUBACK with the one status byte \<open>0x80\<close>
  leaves the flag false, one with the status byte \<open>0x01\<close> sets it, and the SUBACK
  \<open>[idHi, idLo, 0x00, 0x80, 0x01]\<close> is one with more status bytes than entries.
\<close>

theorem prvMQTTUpdateSubAckStatus_flags_witness:
  "prvMQTTUpdateSubAckStatus (suback_descriptor [0x00, 0x01, 0x80]) (initial_state silent_env) =
     Inr ((), initial_state silent_env) \<and>
   prvMQTTUpdateSubAckStatus (suback_descriptor [0x00, 0x01, 0x01]) (initial_state silent_env) =
     Inr ((), (initial_state silent_env)\<lparr>xTopicFilterContext :=
                [\<lparr>pcTopicFilter = [0x74], xSubAckSuccess = True\<rparr>]\<rparr>) \<and>
   isl (prvMQTTUpdateSubAckStatus (suback_descriptor [0x00, 0x01, 0x00, 0x80, 0x01])
          (initial_state silent_env))"
proof -
  let ?buf = "\<lambda>bs. overwrite bs (replicate mqttexampleSHARED_BUFFER_SIZE 0)"
  have len: "length (xTopicFilterContext (initial_state silent_env)) = mqttexampleTOPIC_COUNT"
    by (simp add: mqttexampleTOPIC_COUNT_def)
  have a: "prvMQTTUpdateSubAckStatus (suback_descriptor [0x00, 0x01, 0x80])
             (initial_state silent_env) = Inr ((), initial_state silent_env)"
    using prvMQTTUpdateSubAckStatus_flags
            [of "suback_descriptor [0x00, 0x01, 0x80]" "?buf [0x00, 0x01, 0x80]"
                "initial_state silent_env", OF _ _ _ _ len]
    by (simp add: suback_descriptor_def mqttexampleSHARED_BUFFER_SIZE_def
          mqttexampleTOPIC_COUNT_def overwrite_def initial_state_def silent_env_def)
  have b: "prvMQTTUpdateSubAckStatus (suback_descriptor [0x00, 0x01, 0x01])
             (initial_state silent_env) =
           Inr ((), (initial_state silent_env)\<lparr>xTopicFilterContext :=
                [\<lparr>pcTopicFilter = [0x74], xSubAckSuccess = True\<rparr>]\<rparr>)"
    using prvMQTTUpdateSubAckStatus_flags
            [of "suback_descriptor [0x00, 0x01, 0x01]" "?buf [0x00, 0x01, 0x01]"
                "initial_state silent_env", OF _ _ _ _ len]
    by (simp add: suback_descriptor_def mqttexampleSHARED_BUFFER_SIZE_def
          mqttexampleTOPIC_COUNT_def overwrite_def initial_state_def silent_env_def)
  have c: "isl (prvMQTTUpdateSubAckStatus (suback_descriptor [0x00, 0x01, 0x00, 0x80, 0x01])
             (initial_state silent_env))"
    using prvMQTTUpdateSubAckStatus_flags
            [of "suback_descriptor [0x00, 0x01, 0x00, 0x80, 0x01]"
                "?buf [0x00, 0x01, 0x00, 0x80, 0x01]"
                "initial_state silent_env", OF _ _ _ _ len]
    by (auto simp: suback_descriptor_def mqttexampleSHARED_BUFFER_SIZE_def
          mqttexampleTOPIC_COUNT_def)
  from a b c show ?thesis by simp
qed

text \<open>
  The claim C1 as stated fails on its own example: the program has one Topic Filter
  Context entry, not three. Given the SUBACK \<open>[idHi, idLo, 0x00, 0x80, 0x01]\<close> in the
  initial state, the function sets the flag of entry 0 from the first status byte, then
  reads for entry 1 the byte at twice the index, which is the third status byte \<open>0x01\<close>
  (line 885), and writes the flag of an entry 1 that does not exist (line 891).
\<close>

theorem prvMQTTUpdateSubAckStatus_more_status_bytes:
  "prvMQTTUpdateSubAckStatus (suback_descriptor [0x00, 0x01, 0x00, 0x80, 0x01])
     (initial_state silent_env) =
   Inl (OutOfBounds 891,
        (initial_state silent_env)\<lparr>xTopicFilterContext :=
           [\<lparr>pcTopicFilter = [0x74], xSubAckSuccess = True\<rparr>]\<rparr>) \<and>
   length (xTopicFilterContext (initial_state silent_env)) = mqttexampleTOPIC_COUNT \<and>
   remainingLength (suback_descriptor [0x00, 0x01, 0x00, 0x80, 0x01]) = 5"
  by (simp add: prvMQTTUpdateSubAckStatus_def suback_descriptor_def bind_def read_byte_def
        set_xSubAckSuccess_def upt_two mqttexampleSHARED_BUFFER_SIZE_def overwrite_def
        mqttexampleTOPIC_COUNT_def initial_state_def silent_env_def)

section \<open>The packet identifier allocator\<close>

lemma succ_zero_iff: "(v :: uint16_t) + 1 = 0 \<longleftrightarrow> v = 65535"
proof
  assume "v + 1 = 0"
  then have "v = - 1" by (simp add: eq_neg_iff_add_eq_0)
  then show "v = 65535" by simp
next
  assume "v = 65535" then show "v + 1 = 0" by simp
qed

lemma prvGetNextPacketIdentifier_eq:
  "prvGetNextPacketIdentifier s =
     Inr (if usPacketId s = 65535 then 1 else usPacketId s + 1,
          s\<lparr>usPacketId := (if usPacketId s = 65535 then 1 else usPacketId s + 1)\<rparr>)"
  by (simp add: prvGetNextPacketIdentifier_def Let_def succ_zero_iff)

lemma allocator_sequence:
  "\<exists>ids s'. prvGetNextPacketIdentifier_calls N s = Inr (ids, s') \<and> length ids = N \<and>
     0 \<notin> set ids \<and>
     (\<forall>i<N. ids ! i = (if (usPacketId s # ids) ! i = 65535 then 1 else (usPacketId s # ids) ! i + 1)) \<and>
     s' = s\<lparr>usPacketId := last (usPacketId s # ids)\<rparr>"
proof (induction N arbitrary: s)
  case 0
  show ?case by (simp add: return_def)
next
  case (Suc N)
  let ?v = "if usPacketId s = 65535 then 1 else usPacketId s + 1"
  let ?s1 = "s\<lparr>usPacketId := ?v\<rparr>"
  from Suc.IH[of ?s1] obtain ids s' where
    h: "prvGetNextPacketIdentifier_calls N ?s1 = Inr (ids, s')" "length ids = N" "0 \<notin> set ids"
       "\<forall>i<N. ids ! i = (if (usPacketId ?s1 # ids) ! i = 65535 then 1 else (usPacketId ?s1 # ids) ! i + 1)"
       "s' = ?s1\<lparr>usPacketId := last (usPacketId ?s1 # ids)\<rparr>"
    by blast
  have run: "prvGetNextPacketIdentifier_calls (Suc N) s = Inr (?v # ids, s')"
    using h(1) by (simp add: bind_def prvGetNextPacketIdentifier_eq return_def)
  have nz: "?v \<noteq> 0" using succ_zero_iff[of "usPacketId s"] by auto
  have step: "\<forall>i<Suc N. (?v # ids) ! i =
       (if (usPacketId s # ?v # ids) ! i = 65535 then 1 else (usPacketId s # ?v # ids) ! i + 1)"
  proof (intro allI impI)
    fix i assume "i < Suc N"
    show "(?v # ids) ! i =
       (if (usPacketId s # ?v # ids) ! i = 65535 then 1 else (usPacketId s # ?v # ids) ! i + 1)"
    proof (cases i)
      case 0 then show ?thesis by simp
    next
      case (Suc j)
      with \<open>i < Suc N\<close> have "j < N" by simp
      with h(4) Suc show ?thesis by simp
    qed
  qed
  have fin: "s' = s\<lparr>usPacketId := last (usPacketId s # ?v # ids)\<rparr>"
    using h(5) by simp
  show ?case using run h(2) h(3) nz step fin by (intro exI[of _ "?v # ids"] exI[of _ s']) simp
qed

lemma allocator_counter:
  "usPacketId (final (prvGetNextPacketIdentifier_calls N s)) =
     ((\<lambda>v. if v = 65535 then 1 else v + 1) ^^ N) (usPacketId s)"
proof (induction N arbitrary: s)
  case 0
  show ?case by simp
next
  case (Suc N)
  let ?v = "if usPacketId s = 65535 then 1 else usPacketId s + 1"
  let ?s1 = "s\<lparr>usPacketId := ?v\<rparr>"
  from allocator_sequence[of N ?s1] obtain ids s' where
    h: "prvGetNextPacketIdentifier_calls N ?s1 = Inr (ids, s')"
    by blast
  have "prvGetNextPacketIdentifier_calls (Suc N) s = Inr (?v # ids, s')"
    using h by (simp add: bind_def prvGetNextPacketIdentifier_eq)
  then have "usPacketId (final (prvGetNextPacketIdentifier_calls (Suc N) s)) = usPacketId s'"
    by simp
  also have "\<dots> = usPacketId (final (prvGetNextPacketIdentifier_calls N ?s1))"
    using h by simp
  also have "\<dots> = ((\<lambda>v. if v = 65535 then 1 else v + 1) ^^ N) (usPacketId ?s1)"
    by (rule Suc.IH)
  also have "\<dots> = ((\<lambda>v. if v = 65535 then 1 else v + 1) ^^ N) ?v"
    by simp
  also have "\<dots> = ((\<lambda>v. if v = 65535 then 1 else v + 1) ^^ Suc N) (usPacketId s)"
    by (simp only: funpow_Suc_right o_apply)
  finally show ?case .
qed

lemma funpow_double_Suc: "(f ^^ (2 * Suc n)) x = (f ^^ (2 * n)) (f (f x))"
  by (simp add: funpow_swap1)

lemma allocator_calls_2:
  "prvGetNextPacketIdentifier_calls 2 s = prvGetNextPacketIdentifier_calls (Suc (Suc 0)) s"
  by (simp only: numeral_2_eq_2)

section \<open>What the functions leave unchanged\<close>

lemma pres_Inr: "pres f m \<Longrightarrow> m s = Inr (x, s') \<Longrightarrow> f s' = f s"
  by (metis final_Inr pres_def)

lemma pres_return [pres_intros]: "pres f (return x)"
  by (simp add: pres_def)

lemma pres_abort [pres_intros]: "pres f (abort e)"
  by (simp add: pres_def)

lemma pres_gets [pres_intros]: "pres f (gets g)"
  by (simp add: pres_def)

lemma pres_configASSERT [pres_intros]: "pres f (configASSERT line c)"
  by (simp add: pres_def configASSERT_def)

lemma pres_bind [pres_intros]:
  assumes "pres f m" and "\<And>x. pres f (k x)"
  shows "pres f (bind m k)"
proof -
  have "f (final (bind m k s)) = f s" for s
  proof (cases "m s")
    case (Inl a)
    then show ?thesis using assms(1) by (cases a) (auto simp: bind_def pres_def dest: spec[of _ s])
  next
    case (Inr b)
    obtain x t where b: "b = (x, t)" by (cases b)
    with Inr assms(1) have "f t = f s" by (auto dest: pres_Inr)
    moreover from assms(2)[of x] have "f (final (k x t)) = f t" by (simp add: pres_def)
    ultimately show ?thesis using Inr b by (simp add: bind_def)
  qed
  then show ?thesis by (simp add: pres_def)
qed

lemma pres_if [pres_intros]: "pres f a \<Longrightarrow> pres f b \<Longrightarrow> pres f (if c then a else b)"
  by simp

lemma pres_case_prod [pres_intros]: "(\<And>a b. pres f (g a b)) \<Longrightarrow> pres f (case_prod g p)"
  by (cases p) simp

lemma pres_case_option [pres_intros]:
  "pres f a \<Longrightarrow> (\<And>x. pres f (g x)) \<Longrightarrow> pres f (case_option a g p)"
  by (cases p) simp_all

lemma pres_for_each [pres_intros]: "(\<And>i. pres f (body i)) \<Longrightarrow> pres f (for_each js body)"
  by (induction js) (auto intro: pres_intros)

lemma pres_extern [pres_intros]: "ignores_calls f \<Longrightarrow> pres f (extern c)"
  by (simp add: pres_def ignores_calls_def)

lemma pres_calls:
  assumes "ignores_calls f"
  shows "pres f (LogInfo l)" "pres f (LogWarn l)" "pres f (LogError l)" "pres f (vTaskDelay ms)"
    "pres f (FreeRTOS_shutdown x how)" "pres f (FreeRTOS_closesocket x)"
    "pres f (FreeRTOS_recv env x n)" "pres f (FreeRTOS_send env x bs)"
    "pres f (FreeRTOS_socket env)" "pres f (FreeRTOS_gethostbyname env)"
    "pres f (FreeRTOS_connect env x)" "pres f (RetryUtils_BackoffAndSleep env)"
    "pres f (MQTT_GetIncomingPacketTypeAndLength env x)"
  using assms
  by (auto simp: pres_def ignores_calls_def prims split: prod.splits)

lemma pres_write [pres_intros]: "ignores_buffer f \<Longrightarrow> pres f (write_ucSharedBuffer bs)"
  by (simp add: pres_def ignores_buffer_def write_ucSharedBuffer_def)

lemma pres_get_flag [pres_intros]: "pres f (get_xSubAckSuccess l i)"
  by (simp add: pres_def get_xSubAckSuccess_def)

lemma pres_set_flag [pres_intros]: "ignores_flags f \<Longrightarrow> pres f (set_xSubAckSuccess l i b)"
  by (simp add: pres_def ignores_flags_def set_xSubAckSuccess_def)

lemma pres_read_byte [pres_intros]: "pres f (read_byte l xs i)"
  by (simp add: pres_def read_byte_def)

lemmas [pres_intros] = pres_calls

lemma pres_prvMQTTUpdateSubAckStatus [pres_intros]:
  "ignores_flags f \<Longrightarrow> pres f (prvMQTTUpdateSubAckStatus p)"
  unfolding prvMQTTUpdateSubAckStatus_def Let_def
  by (intro pres_intros) auto

lemma pres_prvMQTTProcessResponse [pres_intros]:
  "ignores_calls f \<Longrightarrow> pres f (prvMQTTProcessResponse p i)"
  unfolding prvMQTTProcessResponse_def
  by (intro pres_intros) auto

lemma pres_prvMQTTProcessIncomingPublish [pres_intros]:
  "ignores_calls f \<Longrightarrow> pres f (prvMQTTProcessIncomingPublish env p)"
  unfolding prvMQTTProcessIncomingPublish_def
  by (intro pres_intros) auto

lemma pres_prvMQTTProcessIncomingPacket [pres_intros]:
  "ignores_calls f \<Longrightarrow> ignores_buffer f \<Longrightarrow> ignores_flags f \<Longrightarrow>
   pres f (prvMQTTProcessIncomingPacket env x)"
  unfolding prvMQTTProcessIncomingPacket_def
  by (intro pres_intros) auto

lemma pres_prvMQTTPublishToTopic [pres_intros]:
  "ignores_calls f \<Longrightarrow> ignores_buffer f \<Longrightarrow> pres f (prvMQTTPublishToTopic env x)"
  unfolding prvMQTTPublishToTopic_def Let_def
  by (intro pres_intros) auto

lemma pres_prvMQTTKeepAlive [pres_intros]:
  "ignores_calls f \<Longrightarrow> ignores_buffer f \<Longrightarrow> pres f (prvMQTTKeepAlive env x)"
  unfolding prvMQTTKeepAlive_def
  by (intro pres_intros) auto

lemma pres_prvMQTTDisconnect [pres_intros]:
  "ignores_calls f \<Longrightarrow> ignores_buffer f \<Longrightarrow> pres f (prvMQTTDisconnect env x)"
  unfolding prvMQTTDisconnect_def
  by (intro pres_intros) auto

lemma pres_prvCreateMQTTConnectionWithBroker [pres_intros]:
  "ignores_calls f \<Longrightarrow> ignores_buffer f \<Longrightarrow> pres f (prvCreateMQTTConnectionWithBroker env x)"
  unfolding prvCreateMQTTConnectionWithBroker_def Let_def
  by (intro pres_intros) auto

lemma pres_prvCreateTCPConnectionToBroker [pres_intros]:
  "ignores_calls f \<Longrightarrow> pres f (prvCreateTCPConnectionToBroker env)"
  unfolding prvCreateTCPConnectionToBroker_def
  by (intro pres_intros) auto

lemma pres_connect_loop [pres_intros]:
  "ignores_calls f \<Longrightarrow> pres f (prvConnectToServerWithBackoffRetries_loop fuel env st)"
proof (induction fuel arbitrary: st)
  case 0
  then show ?case by (simp add: pres_def)
next
  case (Suc fuel)
  show ?case
    unfolding prvConnectToServerWithBackoffRetries_loop.simps
    by (intro pres_intros Suc.IH Suc.prems) 
qed

lemma pres_prvGracefulShutDown [pres_intros]:
  "ignores_calls f \<Longrightarrow> pres f (prvGracefulShutDown env x)"
  by (simp add: pres_def prvGracefulShutDown_def bind_def FreeRTOS_shutdown_def
        FreeRTOS_closesocket_def shutdown_loop_0 ignores_calls_def)

lemma pres_prvGetNextPacketIdentifier [pres_intros]:
  "ignores_ids f \<Longrightarrow> pres f prvGetNextPacketIdentifier"
  by (simp add: pres_def ignores_ids_def prvGetNextPacketIdentifier_def Let_def)

lemma pres_set_ids [pres_intros]:
  "ignores_ids f \<Longrightarrow> pres f (set_usSubscribePacketIdentifier i)"
  "ignores_ids f \<Longrightarrow> pres f (set_usUnsubscribePacketIdentifier i)"
  by (simp_all add: pres_def ignores_ids_def set_usSubscribePacketIdentifier_def
        set_usUnsubscribePacketIdentifier_def)

lemma pres_prvMQTTSubscribeToTopic [pres_intros]:
  "ignores_calls f \<Longrightarrow> ignores_buffer f \<Longrightarrow> ignores_ids f \<Longrightarrow>
   pres f (prvMQTTSubscribeToTopic env x)"
  unfolding prvMQTTSubscribeToTopic_def Let_def
  by (intro pres_intros) auto

lemma pres_prvMQTTUnsubscribeFromTopic [pres_intros]:
  "ignores_calls f \<Longrightarrow> ignores_buffer f \<Longrightarrow> ignores_ids f \<Longrightarrow>
   pres f (prvMQTTUnsubscribeFromTopic env x)"
  unfolding prvMQTTUnsubscribeFromTopic_def Let_def
  by (intro pres_intros) auto

lemma pres_check [pres_intros]:
  "ignores_calls f \<Longrightarrow> pres f (prvMQTTSubscribeWithBackoffRetries_check env js xf st)"
  by (induction js) (auto intro!: pres_intros)

lemma pres_subscribe_loop [pres_intros]:
  assumes "ignores_calls f" "ignores_buffer f" "ignores_flags f" "ignores_ids f"
  shows "pres f (prvMQTTSubscribeWithBackoffRetries_loop fuel env x xf st)"
proof (induction fuel arbitrary: xf st)
  case 0
  then show ?case by (simp add: pres_def)
next
  case (Suc fuel)
  show ?case
    unfolding prvMQTTSubscribeWithBackoffRetries_loop.simps
    by (intro pres_intros Suc.IH assms)
qed

lemma pres_publish_round [pres_intros]:
  "ignores_calls f \<Longrightarrow> ignores_buffer f \<Longrightarrow> ignores_flags f \<Longrightarrow>
   pres f (prvMQTTDemoTask_publish_round env x)"
  unfolding prvMQTTDemoTask_publish_round_def
  by (intro pres_intros) auto

lemma map_update_same: "(map g xs)[i := g (xs ! i)] = map g xs"
  by (metis list_update_id map_update)

text \<open>What each part of the state ignores.\<close>

lemma ignores_simps [simp]:
  "ignores_calls usPacketId" "ignores_buffer usPacketId" "ignores_flags usPacketId"
  "ignores_calls usSubscribePacketIdentifier" "ignores_buffer usSubscribePacketIdentifier"
  "ignores_flags usSubscribePacketIdentifier"
  "ignores_calls usUnsubscribePacketIdentifier" "ignores_buffer usUnsubscribePacketIdentifier"
  "ignores_flags usUnsubscribePacketIdentifier"
  "ignores_calls (\<lambda>u. length (xTopicFilterContext u))"
  "ignores_buffer (\<lambda>u. length (xTopicFilterContext u))"
  "ignores_flags (\<lambda>u. length (xTopicFilterContext u))"
  "ignores_ids (\<lambda>u. length (xTopicFilterContext u))"
  "ignores_calls (\<lambda>u. map pcTopicFilter (xTopicFilterContext u))"
  "ignores_buffer (\<lambda>u. map pcTopicFilter (xTopicFilterContext u))"
  "ignores_flags (\<lambda>u. map pcTopicFilter (xTopicFilterContext u))"
  "ignores_ids (\<lambda>u. map pcTopicFilter (xTopicFilterContext u))"
  "ignores_calls (\<lambda>u. length (ucSharedBuffer u))"
  "ignores_buffer (\<lambda>u. length (ucSharedBuffer u))"
  "ignores_flags (\<lambda>u. length (ucSharedBuffer u))"
  "ignores_ids (\<lambda>u. length (ucSharedBuffer u))"
  by (simp_all add: ignores_calls_def ignores_buffer_def ignores_flags_def ignores_ids_def
        map_update map_update_same)

lemma bind_InrE:
  assumes "bind m k s = Inr (y, t)"
  obtains x u where "m s = Inr (x, u)" and "k x u = Inr (y, t)"
  using assms by (auto simp: bind_def split: sum.splits)

lemma configASSERT_Inr: "configASSERT l c s = Inr (x, t) \<Longrightarrow> c \<and> t = s"
  by (cases c) simp_all

lemma alloc_post:
  "prvGetNextPacketIdentifier s = Inr (i, s') \<Longrightarrow> i \<noteq> 0 \<and> usPacketId s' = i"
  by (auto simp: prvGetNextPacketIdentifier_def Let_def split: if_splits)

lemma subscribe_post:
  assumes "prvMQTTSubscribeToTopic env x s = Inr ((), s')"
  shows "usSubscribePacketIdentifier s' \<noteq> 0 \<and>
         usSubscribePacketIdentifier s' = (if usPacketId s = 65535 then 1 else usPacketId s + 1) \<and>
         usPacketId s' = usSubscribePacketIdentifier s'"
proof -
  obtain r1 n1 n2 where sz: "o_MQTT_GetSubscribePacketSize env
      (topic_subscription env # replicate (mqttexampleTOPIC_COUNT - 1) zeroed_subscription) = (r1, n1, n2)"
    by (metis prod_cases3)
  from assms sz obtain i s1 s2 where
    a: "prvGetNextPacketIdentifier s = Inr (i, s1)"
    and b: "set_usSubscribePacketIdentifier i s1 = Inr ((), s2)"
    and c: "bind (configASSERT 790 (i \<noteq> 0)) (\<lambda>_.
             case o_MQTT_SerializeSubscribe env
                    (topic_subscription env # replicate (mqttexampleTOPIC_COUNT - 1) zeroed_subscription)
                    i n1 of
               (xResult, bs) \<Rightarrow>
                 bind (write_ucSharedBuffer bs) (\<lambda>_.
                 bind (configASSERT 799 (xResult = MQTTSuccess)) (\<lambda>_.
                 bind (gets ucSharedBuffer) (\<lambda>pBuffer.
                 bind (FreeRTOS_send env x (take n2 pBuffer)) (\<lambda>xStatus.
                 configASSERT 807 (xStatus = BaseType_of_size n2)))))) s2 = Inr ((), s')"
    unfolding prvMQTTSubscribeToTopic_def Let_def
    by (auto elim!: bind_InrE dest!: configASSERT_Inr)
  have p: "pres (\<lambda>u. (usSubscribePacketIdentifier u, usPacketId u))
             (bind (configASSERT 790 (i \<noteq> 0)) (\<lambda>_.
             case o_MQTT_SerializeSubscribe env
                    (topic_subscription env # replicate (mqttexampleTOPIC_COUNT - 1) zeroed_subscription)
                    i n1 of
               (xResult, bs) \<Rightarrow>
                 bind (write_ucSharedBuffer bs) (\<lambda>_.
                 bind (configASSERT 799 (xResult = MQTTSuccess)) (\<lambda>_.
                 bind (gets ucSharedBuffer) (\<lambda>pBuffer.
                 bind (FreeRTOS_send env x (take n2 pBuffer)) (\<lambda>xStatus.
                 configASSERT 807 (xStatus = BaseType_of_size n2)))))))"
    by (intro pres_intros) (auto simp: ignores_calls_def ignores_buffer_def)
  from alloc_post[OF a] have i: "i \<noteq> 0" "usPacketId s1 = i" by simp_all
  from a have v: "i = (if usPacketId s = 65535 then 1 else usPacketId s + 1)"
    by (simp add: prvGetNextPacketIdentifier_eq)
  from b i have s2: "usSubscribePacketIdentifier s2 = i" "usPacketId s2 = i"
    by (auto simp: set_usSubscribePacketIdentifier_def)
  from pres_Inr[OF p c] s2 i v show ?thesis by simp
qed

lemma unsubscribe_post:
  assumes "prvMQTTUnsubscribeFromTopic env x s = Inr ((), s')"
  shows "usUnsubscribePacketIdentifier s' \<noteq> 0 \<and>
         usUnsubscribePacketIdentifier s' = usPacketId s' \<and>
         usSubscribePacketIdentifier s' = usSubscribePacketIdentifier s \<and>
         usPacketId s' = (if usPacketId s = 65535 then 1 else usPacketId s + 1)"
proof -
  obtain r1 n1 n2 where
    sz: "o_MQTT_GetUnsubscribePacketSize env [topic_subscription env] = (r1, n1, n2)"
    by (metis prod_cases3)
  let ?rest = "\<lambda>i. bind (configASSERT 986 (i \<noteq> 0)) (\<lambda>_.
             case o_MQTT_SerializeUnsubscribe env [topic_subscription env] i n1 of
               (xResult, bs) \<Rightarrow>
                 bind (write_ucSharedBuffer bs) (\<lambda>_.
                 bind (configASSERT 993 (xResult = MQTTSuccess)) (\<lambda>_.
                 bind (gets ucSharedBuffer) (\<lambda>pBuffer.
                 bind (FreeRTOS_send env x (take n2 pBuffer)) (\<lambda>xStatus.
                 configASSERT 997 (xStatus = BaseType_of_size n2))))))"
  from assms sz obtain i s1 s2 where
    a: "prvGetNextPacketIdentifier s = Inr (i, s1)"
    and b: "set_usUnsubscribePacketIdentifier i s1 = Inr ((), s2)"
    and c: "?rest i s2 = Inr ((), s')"
    unfolding prvMQTTUnsubscribeFromTopic_def Let_def
    by (auto elim!: bind_InrE dest!: configASSERT_Inr)
  have p: "pres (\<lambda>u. (usUnsubscribePacketIdentifier u, usPacketId u,
                        usSubscribePacketIdentifier u)) (?rest i)"
    by (intro pres_intros) (auto simp: ignores_calls_def ignores_buffer_def)
  from alloc_post[OF a] have i: "i \<noteq> 0" "usPacketId s1 = i" by simp_all
  from a have s1: "usSubscribePacketIdentifier s1 = usSubscribePacketIdentifier s"
    by (auto simp: prvGetNextPacketIdentifier_def Let_def)
  from b i s1 have s2: "usUnsubscribePacketIdentifier s2 = i" "usPacketId s2 = i"
      "usSubscribePacketIdentifier s2 = usSubscribePacketIdentifier s"
    by (auto simp: set_usUnsubscribePacketIdentifier_def)
  from a have v: "i = (if usPacketId s = 65535 then 1 else usPacketId s + 1)"
    by (simp add: prvGetNextPacketIdentifier_eq)
  from pres_Inr[OF p c] s2 i v show ?thesis by simp
qed

lemma check_flag:
  "prvMQTTSubscribeWithBackoffRetries_check env js True st s = Inr ((xf, st'), s') \<Longrightarrow> xf"
  by (induction js arbitrary: s)
     (auto simp: bind_def prims split: if_splits sum.splits)

lemma retry_stuck:
  "prvMQTTSubscribeWithBackoffRetries_loop fuel env x True st s \<noteq> Inr ((), s')"
proof (induction fuel arbitrary: st s)
  case 0
  show ?case by simp
next
  case (Suc fuel)
  show ?case
  proof
    assume "prvMQTTSubscribeWithBackoffRetries_loop (Suc fuel) env x True st s = Inr ((), s')"
    then obtain s4 s5 xf' st' where
      e: "prvMQTTSubscribeWithBackoffRetries_check env [0..<mqttexampleTOPIC_COUNT] True st s4 =
            Inr ((xf', st'), s5)"
      and g: "st' \<noteq> RetryUtilsRetriesExhausted"
      and f: "(if xf' = True \<and> st' = RetryUtilsSuccess
               then prvMQTTSubscribeWithBackoffRetries_loop fuel env x xf' st'
               else return ()) s5 = Inr ((), s')"
      unfolding prvMQTTSubscribeWithBackoffRetries_loop.simps
      by (auto elim!: bind_InrE dest!: configASSERT_Inr)
    from check_flag[OF e] have "xf'" .
    moreover from g have "st' = RetryUtilsSuccess" by (cases st') simp_all
    ultimately have "prvMQTTSubscribeWithBackoffRetries_loop fuel env x True RetryUtilsSuccess s5 =
      Inr ((), s')" using f by simp
    with Suc.IH show False by blast
  qed
qed

lemma retry_post:
  "prvMQTTSubscribeWithBackoffRetries_loop fuel env x xf st s = Inr ((), s') \<Longrightarrow>
   usSubscribePacketIdentifier s' \<noteq> 0"
proof (induction fuel arbitrary: xf st s)
  case 0
  then show ?case by simp
next
  case (Suc fuel)
  from Suc.prems obtain s1 s2 s3 s4 s5 xf' st' where
    a: "LogInfo 831 s = Inr ((), s1)"
    and b: "prvMQTTSubscribeToTopic env x s1 = Inr ((), s2)"
    and c: "LogInfo 834 s2 = Inr ((), s3)"
    and d: "prvMQTTProcessIncomingPacket env x s3 = Inr ((), s4)"
    and e: "prvMQTTSubscribeWithBackoffRetries_check env [0..<mqttexampleTOPIC_COUNT] xf st s4 =
              Inr ((xf', st'), s5)"
    and f: "(if xf' = True \<and> st' = RetryUtilsSuccess
             then prvMQTTSubscribeWithBackoffRetries_loop fuel env x xf' st'
             else return ()) s5 = Inr ((), s')"
    unfolding prvMQTTSubscribeWithBackoffRetries_loop.simps
    by (auto elim!: bind_InrE dest!: configASSERT_Inr)
  show ?case
  proof (cases "xf' = True \<and> st' = RetryUtilsSuccess")
    case True
    with f Suc.IH show ?thesis by auto
  next
    case False
    with f have "s' = s5" by (auto split: if_splits)
    moreover have "usSubscribePacketIdentifier s5 = usSubscribePacketIdentifier s4"
      using pres_Inr[OF pres_check e, of usSubscribePacketIdentifier] by simp
    moreover have "usSubscribePacketIdentifier s4 = usSubscribePacketIdentifier s3"
      using pres_Inr[OF pres_prvMQTTProcessIncomingPacket d, of usSubscribePacketIdentifier] by simp
    moreover have "usSubscribePacketIdentifier s3 = usSubscribePacketIdentifier s2"
      using c by (auto simp: LogInfo_def)
    ultimately show ?thesis using subscribe_post[OF b, THEN conjunct1] by simp
  qed
qed

lemma retry_exact:
  assumes "prvMQTTSubscribeWithBackoffRetries_loop fuel env x False st s = Inr ((), s')"
  shows "usSubscribePacketIdentifier s' = (if usPacketId s = 65535 then 1 else usPacketId s + 1) \<and>
         usPacketId s' = usSubscribePacketIdentifier s'"
proof (cases fuel)
  case 0
  with assms show ?thesis by simp
next
  case (Suc n)
  from assms[unfolded Suc] obtain s1 s2 s3 s4 s5 xf' st' where
    a: "LogInfo 831 s = Inr ((), s1)"
    and b: "prvMQTTSubscribeToTopic env x s1 = Inr ((), s2)"
    and c: "LogInfo 834 s2 = Inr ((), s3)"
    and d: "prvMQTTProcessIncomingPacket env x s3 = Inr ((), s4)"
    and e: "prvMQTTSubscribeWithBackoffRetries_check env [0..<mqttexampleTOPIC_COUNT] False st s4 =
              Inr ((xf', st'), s5)"
    and g: "st' \<noteq> RetryUtilsRetriesExhausted"
    and f: "(if xf' = True \<and> st' = RetryUtilsSuccess
             then prvMQTTSubscribeWithBackoffRetries_loop n env x xf' st'
             else return ()) s5 = Inr ((), s')"
    unfolding prvMQTTSubscribeWithBackoffRetries_loop.simps
    by (auto elim!: bind_InrE dest!: configASSERT_Inr)
  have xf: "\<not> xf'"
  proof
    assume "xf'"
    moreover from g have "st' = RetryUtilsSuccess" by (cases st') simp_all
    ultimately have "prvMQTTSubscribeWithBackoffRetries_loop n env x True RetryUtilsSuccess s5 =
      Inr ((), s')" using f by simp
    then show False by (simp add: retry_stuck)
  qed
  with f have "s' = s5" by simp
  moreover have "usSubscribePacketIdentifier s5 = usSubscribePacketIdentifier s4"
      "usPacketId s5 = usPacketId s4"
    using pres_Inr[OF pres_check e, of usSubscribePacketIdentifier]
      pres_Inr[OF pres_check e, of usPacketId] by simp_all
  moreover have "usSubscribePacketIdentifier s4 = usSubscribePacketIdentifier s3"
      "usPacketId s4 = usPacketId s3"
    using pres_Inr[OF pres_prvMQTTProcessIncomingPacket d, of usSubscribePacketIdentifier]
      pres_Inr[OF pres_prvMQTTProcessIncomingPacket d, of usPacketId] by simp_all
  moreover have "usSubscribePacketIdentifier s3 = usSubscribePacketIdentifier s2"
      "usPacketId s3 = usPacketId s2"
    using c by (auto simp: LogInfo_def)
  moreover have "usPacketId s1 = usPacketId s"
    using a by (auto simp: LogInfo_def)
  ultimately show ?thesis using subscribe_post[OF b, THEN conjunct2] by simp
qed

lemma pres_iteration_tail:
  assumes "ignores_calls f" "ignores_buffer f" "ignores_flags f"
  shows "pres f
     (bind (prvMQTTProcessIncomingPacket env xMQTTSocket) (\<lambda>_.
      bind (LogInfo 465) (\<lambda>_.
      bind (prvMQTTDisconnect env xMQTTSocket) (\<lambda>_.
      bind (prvGracefulShutDown env xMQTTSocket) (\<lambda>_.
      bind (for_each [0..<mqttexampleTOPIC_COUNT] (\<lambda>ulTopicCount.
              set_xSubAckSuccess 474 ulTopicCount False)) (\<lambda>_.
      bind (LogInfo 479) (\<lambda>_.
      bind (LogInfo 480) (\<lambda>_.
      bind (LogInfo 481) (\<lambda>_.
      vTaskDelay mqttexampleDELAY_BETWEEN_DEMO_ITERATIONS)))))))))"
  by (intro pres_intros assms)

lemma pres_iteration:
  assumes "ignores_calls f" "ignores_buffer f" "ignores_flags f" "ignores_ids f"
  shows "pres f (prvMQTTDemoTask_iteration fuel env)"
  unfolding prvMQTTDemoTask_iteration_def prvConnectToServerWithBackoffRetries_def
    prvMQTTSubscribeWithBackoffRetries_def
  by (intro pres_intros assms)

lemma reset_flags:
  assumes "for_each [0..<mqttexampleTOPIC_COUNT]
             (\<lambda>ulTopicCount. set_xSubAckSuccess 474 ulTopicCount False) s = Inr ((), s')"
      and "length (xTopicFilterContext s) = mqttexampleTOPIC_COUNT"
  shows "xTopicFilterContext s' =
           map (\<lambda>c. c\<lparr>xSubAckSuccess := False\<rparr>) (xTopicFilterContext s)"
proof -
  from assms(2) obtain c where c: "xTopicFilterContext s = [c]"
    by (cases "xTopicFilterContext s") (auto simp: mqttexampleTOPIC_COUNT_def)
  with assms(1) show ?thesis
    by (auto simp: mqttexampleTOPIC_COUNT_def bind_def set_xSubAckSuccess_def)
qed

lemma bind_InrI: "m s = Inr (x, u) \<Longrightarrow> k x u = Inr (y, t) \<Longrightarrow> bind m k s = Inr (y, t)"
  by (simp add: bind_def)

lemma iteration_post:
  assumes run: "prvMQTTDemoTask_iteration fuel env s = Inr ((), s')"
  shows "(length (xTopicFilterContext s) = mqttexampleTOPIC_COUNT \<longrightarrow>
            list_all (\<lambda>c. xSubAckSuccess c = False) (xTopicFilterContext s')) \<and>
         map pcTopicFilter (xTopicFilterContext s') = map pcTopicFilter (xTopicFilterContext s) \<and>
         length (ucSharedBuffer s') = length (ucSharedBuffer s) \<and>
         usSubscribePacketIdentifier s' \<noteq> 0 \<and>
         usUnsubscribePacketIdentifier s' \<noteq> 0 \<and>
         usUnsubscribePacketIdentifier s' = usPacketId s' \<and>
         usSubscribePacketIdentifier s' = (if usPacketId s = 65535 then 1 else usPacketId s + 1) \<and>
         usPacketId s' = (if usSubscribePacketIdentifier s' = 65535 then 1
                          else usSubscribePacketIdentifier s' + 1)"
proof -
  from run obtain x s1 s2 s3 s4 s5 s6 s7 t1 t2 t3 t4 t5 t6 t7 t8 where
    c1: "prvConnectToServerWithBackoffRetries fuel env s = Inr (x, s1)"
    and c2: "LogInfo 419 s1 = Inr ((), s2)"
    and c3: "prvCreateMQTTConnectionWithBroker env x s2 = Inr ((), s3)"
    and c4: "prvMQTTSubscribeWithBackoffRetries fuel env x s3 = Inr ((), s4)"
    and c5: "for_each [0..<ulMaxPublishCount]
               (\<lambda>ulPublishCount. prvMQTTDemoTask_publish_round env x) s4 = Inr ((), s5)"
    and c6: "LogInfo 454 s5 = Inr ((), s6)"
    and c7: "prvMQTTUnsubscribeFromTopic env x s6 = Inr ((), s7)"
    and d1: "prvMQTTProcessIncomingPacket env x s7 = Inr ((), t1)"
    and d2: "LogInfo 465 t1 = Inr ((), t2)"
    and d3: "prvMQTTDisconnect env x t2 = Inr ((), t3)"
    and d4: "prvGracefulShutDown env x t3 = Inr ((), t4)"
    and d5: "for_each [0..<mqttexampleTOPIC_COUNT]
               (\<lambda>ulTopicCount. set_xSubAckSuccess 474 ulTopicCount False) t4 = Inr ((), t5)"
    and d6: "LogInfo 479 t5 = Inr ((), t6)"
    and d7: "LogInfo 480 t6 = Inr ((), t7)"
    and d8: "LogInfo 481 t7 = Inr ((), t8)"
    and d9: "vTaskDelay mqttexampleDELAY_BETWEEN_DEMO_ITERATIONS t8 = Inr ((), s')"
    unfolding prvMQTTDemoTask_iteration_def
    by (elim bind_InrE) (auto dest!: configASSERT_Inr)
  have tail: "bind (prvMQTTProcessIncomingPacket env x) (\<lambda>_.
      bind (LogInfo 465) (\<lambda>_.
      bind (prvMQTTDisconnect env x) (\<lambda>_.
      bind (prvGracefulShutDown env x) (\<lambda>_.
      bind (for_each [0..<mqttexampleTOPIC_COUNT] (\<lambda>ulTopicCount.
              set_xSubAckSuccess 474 ulTopicCount False)) (\<lambda>_.
      bind (LogInfo 479) (\<lambda>_.
      bind (LogInfo 480) (\<lambda>_.
      bind (LogInfo 481) (\<lambda>_.
      vTaskDelay mqttexampleDELAY_BETWEEN_DEMO_ITERATIONS)))))))) s7 = Inr ((), s')"
    by (rule bind_InrI, rule d1, rule bind_InrI, rule d2, rule bind_InrI, rule d3,
        rule bind_InrI, rule d4, rule bind_InrI, rule d5, rule bind_InrI, rule d6,
        rule bind_InrI, rule d7, rule bind_InrI, rule d8, rule d9)
  note whole = pres_Inr[OF pres_iteration run]
  have topics: "map pcTopicFilter (xTopicFilterContext s') = map pcTopicFilter (xTopicFilterContext s)"
    using whole[of "\<lambda>u. map pcTopicFilter (xTopicFilterContext u)"] by simp
  have buf: "length (ucSharedBuffer s') = length (ucSharedBuffer s)"
    using whole[of "\<lambda>u. length (ucSharedBuffer u)"] by simp
  let ?n = "\<lambda>u. length (xTopicFilterContext u)"
  have "?n t4 = ?n s"
    using pres_Inr[OF pres_connect_loop c1[unfolded prvConnectToServerWithBackoffRetries_def], of ?n]
      pres_Inr[OF pres_calls(1) c2, of ?n]
      pres_Inr[OF pres_prvCreateMQTTConnectionWithBroker c3, of ?n]
      pres_Inr[OF pres_subscribe_loop c4[unfolded prvMQTTSubscribeWithBackoffRetries_def], of ?n]
      pres_Inr[OF pres_for_each c5, of ?n]
      pres_Inr[OF pres_calls(1) c6, of ?n]
      pres_Inr[OF pres_prvMQTTUnsubscribeFromTopic c7, of ?n]
      pres_Inr[OF pres_prvMQTTProcessIncomingPacket d1, of ?n]
      pres_Inr[OF pres_calls(1) d2, of ?n]
      pres_Inr[OF pres_prvMQTTDisconnect d3, of ?n]
      pres_Inr[OF pres_prvGracefulShutDown d4, of ?n]
    by (simp add: pres_publish_round)
  then have n4: "?n t4 = ?n s" .
  have last: "xTopicFilterContext s' = xTopicFilterContext t5"
    using d6 d7 d8 d9 by (auto simp: LogInfo_def vTaskDelay_def)
  have flags: "list_all (\<lambda>c. xSubAckSuccess c = False) (xTopicFilterContext s')"
    if len: "length (xTopicFilterContext s) = mqttexampleTOPIC_COUNT"
  proof -
    from len n4 have "xTopicFilterContext t5 =
        map (\<lambda>c. c\<lparr>xSubAckSuccess := False\<rparr>) (xTopicFilterContext t4)"
      using reset_flags[OF d5] by simp
    with last show ?thesis by (simp add: list_all_iff)
  qed
  have sub4: "usSubscribePacketIdentifier s4 \<noteq> 0"
    using retry_post[OF c4[unfolded prvMQTTSubscribeWithBackoffRetries_def]] .
  have ctr3: "usPacketId s3 = usPacketId s"
    using pres_Inr[OF pres_connect_loop c1[unfolded prvConnectToServerWithBackoffRetries_def],
            of usPacketId]
      pres_Inr[OF pres_calls(1) c2, of usPacketId]
      pres_Inr[OF pres_prvCreateMQTTConnectionWithBroker c3, of usPacketId]
    by simp
  note r = retry_exact[OF c4[unfolded prvMQTTSubscribeWithBackoffRetries_def]]
  have ctr6: "usPacketId s6 = usPacketId s4"
    using pres_Inr[OF pres_for_each c5, of usPacketId]
      pres_Inr[OF pres_calls(1) c6, of usPacketId]
    by (simp add: pres_publish_round)
  have sub6: "usSubscribePacketIdentifier s6 = usSubscribePacketIdentifier s4"
    using pres_Inr[OF pres_for_each c5, of usSubscribePacketIdentifier]
      pres_Inr[OF pres_calls(1) c6, of usSubscribePacketIdentifier]
    by (simp add: pres_publish_round)
  note u = unsubscribe_post[OF c7]
  note sub6
  moreover note u
  moreover have t: "usSubscribePacketIdentifier s' = usSubscribePacketIdentifier s7"
      "usUnsubscribePacketIdentifier s' = usUnsubscribePacketIdentifier s7"
      "usPacketId s' = usPacketId s7"
    using pres_Inr[OF pres_iteration_tail tail, of usSubscribePacketIdentifier]
      pres_Inr[OF pres_iteration_tail tail, of usUnsubscribePacketIdentifier]
      pres_Inr[OF pres_iteration_tail tail, of usPacketId]
    by simp_all
  ultimately have ids: "usSubscribePacketIdentifier s' \<noteq> 0"
      "usUnsubscribePacketIdentifier s' \<noteq> 0"
      "usUnsubscribePacketIdentifier s' = usPacketId s'"
    using sub4 by auto
  have exact: "usSubscribePacketIdentifier s' = (if usPacketId s = 65535 then 1 else usPacketId s + 1)"
      "usPacketId s' = (if usSubscribePacketIdentifier s' = 65535 then 1
                        else usSubscribePacketIdentifier s' + 1)"
    using t u r ctr3 ctr6 sub6 by simp_all
  from flags topics buf ids exact show ?thesis by blast
qed

lemma demo_task_counter:
  "prvMQTTDemoTask n fuel env u = Inr ((), u') \<Longrightarrow>
   usPacketId u' = usPacketId (final (prvGetNextPacketIdentifier_calls (2 * n) u))"
proof (induction n arbitrary: u)
  case 0
  then show ?case by simp
next
  case (Suc n)
  from Suc.prems obtain u1 where
    a: "prvMQTTDemoTask_iteration fuel env u = Inr ((), u1)"
    and b: "prvMQTTDemoTask n fuel env u1 = Inr ((), u')"
    by (auto elim!: bind_InrE)
  define F where "F = (\<lambda>v :: uint16_t. if v = 65535 then 1 else v + 1)"
  have counter: "usPacketId (final (prvGetNextPacketIdentifier_calls N v)) = (F ^^ N) (usPacketId v)"
    for N v
    unfolding F_def by (rule allocator_counter)
  from iteration_post[OF a] have "usPacketId u1 = F (F (usPacketId u))"
    by (simp add: F_def)
  moreover from Suc.IH[OF b] have "usPacketId u' = (F ^^ (2 * n)) (usPacketId u1)"
    by (simp only: counter)
  ultimately show ?case
    by (simp only: counter funpow_double_Suc)
qed

section \<open>One whole session\<close>

lemmas run_defs =
  prvMQTTDemoTask_iteration_def prvMQTTDemoTask_publish_round_def
  prvConnectToServerWithBackoffRetries_def prvCreateTCPConnectionToBroker_def
  prvCreateMQTTConnectionWithBroker_def prvMQTTSubscribeWithBackoffRetries_def
  prvMQTTSubscribeToTopic_def prvMQTTPublishToTopic_def prvMQTTUnsubscribeFromTopic_def
  prvMQTTKeepAlive_def prvMQTTDisconnect_def prvGracefulShutDown_def
  prvMQTTProcessIncomingPacket_def prvMQTTProcessResponse_def prvMQTTProcessIncomingPublish_def
  prvMQTTUpdateSubAckStatus_def prvGetNextPacketIdentifier_def
  topic_subscription_def zeroed_subscription_def
  bind_def prims packet_types script_def
  lib_DeserializeAck_def lenient_DeserializeAck_def lib_DeserializePublish_def packet_id_of_def
  mqttexampleSHARED_BUFFER_SIZE_def BaseType_of_size_def strlen_def
  mqttexampleTOPIC_COUNT_def overwrite_def Let_def
  ulMaxPublishCount_def FREERTOS_INVALID_SOCKET_def
  mqttexampleKEEP_ALIVE_DELAY_def mqttexampleKEEP_ALIVE_TIMEOUT_SECONDS_def
  mqttexampleDELAY_BETWEEN_DEMO_ITERATIONS_def mqttexampleMESSAGE_def
  shutdown_loop_0

lemma upt_0_5: "[0..<5] = [0, 1, 2, 3, 4]"
  by code_simp

lemma session_run:
  "map_sum fst (\<lambda>(u, t). session_view t)
     (prvMQTTDemoTask_iteration (Suc 0) session_env (initial_state session_env)) =
   Inr (1, 2, 2, [False],
    [C_LogInfo 634, C_FreeRTOS_socket, C_FreeRTOS_gethostbyname, C_FreeRTOS_connect 1,
     C_LogInfo 419,
     C_FreeRTOS_send 1 [16, 13, 0, 4, 77, 81, 84, 84, 4, 2, 0, 10, 0, 1, 99],
     C_MQTT_GetIncomingPacketTypeAndLength 1, C_FreeRTOS_recv 1 2, C_LogInfo 831,
     C_FreeRTOS_send 1 [130, 6, 0, 1, 0, 1, 116, 0], C_LogInfo 834,
     C_MQTT_GetIncomingPacketTypeAndLength 1, C_FreeRTOS_recv 1 3, C_LogInfo 1063,
     C_LogInfo 433, C_FreeRTOS_send 1 [48, 33, 0, 1, 116],
     C_FreeRTOS_send 1 mqttexampleMESSAGE, C_LogInfo 438,
     C_MQTT_GetIncomingPacketTypeAndLength 1, C_FreeRTOS_recv 1 33, C_LogInfo 1097,
     C_LogInfo 1105, C_LogInfo 442, C_vTaskDelay 2000, C_LogInfo 446,
     C_FreeRTOS_send 1 [192, 0], C_MQTT_GetIncomingPacketTypeAndLength 1, C_LogInfo 1080,
     C_LogInfo 433, C_FreeRTOS_send 1 [48, 33, 0, 1, 116],
     C_FreeRTOS_send 1 mqttexampleMESSAGE, C_LogInfo 438,
     C_MQTT_GetIncomingPacketTypeAndLength 1, C_FreeRTOS_recv 1 33, C_LogInfo 1097,
     C_LogInfo 1105, C_LogInfo 442, C_vTaskDelay 2000, C_LogInfo 446,
     C_FreeRTOS_send 1 [192, 0], C_MQTT_GetIncomingPacketTypeAndLength 1, C_LogInfo 1080,
     C_LogInfo 433, C_FreeRTOS_send 1 [48, 33, 0, 1, 116],
     C_FreeRTOS_send 1 mqttexampleMESSAGE, C_LogInfo 438,
     C_MQTT_GetIncomingPacketTypeAndLength 1, C_FreeRTOS_recv 1 33, C_LogInfo 1097,
     C_LogInfo 1105, C_LogInfo 442, C_vTaskDelay 2000, C_LogInfo 446,
     C_FreeRTOS_send 1 [192, 0], C_MQTT_GetIncomingPacketTypeAndLength 1, C_LogInfo 1080,
     C_LogInfo 433, C_FreeRTOS_send 1 [48, 33, 0, 1, 116],
     C_FreeRTOS_send 1 mqttexampleMESSAGE, C_LogInfo 438,
     C_MQTT_GetIncomingPacketTypeAndLength 1, C_FreeRTOS_recv 1 33, C_LogInfo 1097,
     C_LogInfo 1105, C_LogInfo 442, C_vTaskDelay 2000, C_LogInfo 446,
     C_FreeRTOS_send 1 [192, 0], C_MQTT_GetIncomingPacketTypeAndLength 1, C_LogInfo 1080,
     C_LogInfo 433, C_FreeRTOS_send 1 [48, 33, 0, 1, 116],
     C_FreeRTOS_send 1 mqttexampleMESSAGE, C_LogInfo 438,
     C_MQTT_GetIncomingPacketTypeAndLength 1, C_FreeRTOS_recv 1 33, C_LogInfo 1097,
     C_LogInfo 1105, C_LogInfo 442, C_vTaskDelay 2000, C_LogInfo 446,
     C_FreeRTOS_send 1 [192, 0], C_MQTT_GetIncomingPacketTypeAndLength 1, C_LogInfo 1080,
     C_LogInfo 454, C_FreeRTOS_send 1 [162, 5, 0, 2, 0, 1, 116],
     C_MQTT_GetIncomingPacketTypeAndLength 1, C_FreeRTOS_recv 1 2, C_LogInfo 1074,
     C_LogInfo 465, C_FreeRTOS_send 1 [224, 0], C_FreeRTOS_shutdown 1 FREERTOS_SHUT_RDWR,
     C_FreeRTOS_recv 1 20, C_FreeRTOS_closesocket 1, C_LogInfo 479, C_LogInfo 480,
     C_LogInfo 481, C_vTaskDelay 5000])"
  by (simp add: session_env_def echo_body_def session_view_def run_defs upt_0_5)

lemma map_sum_InrD:
  "map_sum f (\<lambda>(u, t). g t) r = Inr v \<Longrightarrow> \<exists>t. r = Inr ((), t) \<and> g t = v"
  by (cases r) auto

section \<open>Subscribing with retries\<close>

lemmas retry_defs =
  prvMQTTSubscribeToTopic_def
  prvMQTTProcessIncomingPacket_def prvMQTTProcessResponse_def
  prvMQTTUpdateSubAckStatus_def prvGetNextPacketIdentifier_def
  topic_subscription_def zeroed_subscription_def
  bind_def prims packet_types script_def
  mqttexampleSHARED_BUFFER_SIZE_def BaseType_of_size_def strlen_def
  mqttexampleTOPIC_COUNT_def overwrite_def Let_def

lemma first_round_rejected:
  assumes "bind (LogInfo 831) (\<lambda>_.
           bind (prvMQTTSubscribeToTopic (reject_then_accept_env d) 1) (\<lambda>_.
           bind (LogInfo 834) (\<lambda>_.
           prvMQTTProcessIncomingPacket (reject_then_accept_env d) 1)))
             (initial_state (reject_then_accept_env d)) = Inr ((), t)"
  shows "map xSubAckSuccess (xTopicFilterContext t) = [False]"
  using assms
  by (auto simp: reject_then_accept_env_def retry_defs configASSERT_def
           split: prod.splits if_splits)

lemma check_finds_rejected:
  assumes "prvMQTTSubscribeWithBackoffRetries_check env [0..<mqttexampleTOPIC_COUNT] xf st s =
             Inr ((xf', st'), s')"
      and "map xSubAckSuccess (xTopicFilterContext s) = [False]"
  shows "xf'"
  using assms
  by (auto simp: mqttexampleTOPIC_COUNT_def bind_def prims split: if_splits sum.splits)

lemma reject_first_never_returns:
  "isl (prvMQTTSubscribeWithBackoffRetries fuel (reject_then_accept_env d) 1
          (initial_state (reject_then_accept_env d)))"
proof (cases fuel)
  case 0
  then show ?thesis by (simp add: prvMQTTSubscribeWithBackoffRetries_def)
next
  case (Suc n)
  let ?env = "reject_then_accept_env d"
  show ?thesis
  proof (rule ccontr)
    assume "\<not> ?thesis"
    then obtain s' where
      run: "prvMQTTSubscribeWithBackoffRetries_loop (Suc n) ?env 1 False RetryUtilsSuccess
              (initial_state ?env) = Inr ((), s')"
      unfolding prvMQTTSubscribeWithBackoffRetries_def Suc
      by (cases "prvMQTTSubscribeWithBackoffRetries_loop (Suc n) ?env 1 False RetryUtilsSuccess
              (initial_state ?env)") auto
    then obtain s1 s2 s3 s4 s5 xf' st' where
      a: "LogInfo 831 (initial_state ?env) = Inr ((), s1)"
      and b: "prvMQTTSubscribeToTopic ?env 1 s1 = Inr ((), s2)"
      and c: "LogInfo 834 s2 = Inr ((), s3)"
      and d: "prvMQTTProcessIncomingPacket ?env 1 s3 = Inr ((), s4)"
      and e: "prvMQTTSubscribeWithBackoffRetries_check ?env [0..<mqttexampleTOPIC_COUNT]
                False RetryUtilsSuccess s4 = Inr ((xf', st'), s5)"
      and g: "st' \<noteq> RetryUtilsRetriesExhausted"
      and f: "(if xf' = True \<and> st' = RetryUtilsSuccess
               then prvMQTTSubscribeWithBackoffRetries_loop n ?env 1 xf' st'
               else return ()) s5 = Inr ((), s')"
      unfolding prvMQTTSubscribeWithBackoffRetries_loop.simps
      by (auto elim!: bind_InrE dest!: configASSERT_Inr)
    have "bind (LogInfo 831) (\<lambda>_.
           bind (prvMQTTSubscribeToTopic ?env 1) (\<lambda>_.
           bind (LogInfo 834) (\<lambda>_.
           prvMQTTProcessIncomingPacket ?env 1))) (initial_state ?env) = Inr ((), s4)"
      by (rule bind_InrI, rule a, rule bind_InrI, rule b, rule bind_InrI, rule c, rule d)
    then have "map xSubAckSuccess (xTopicFilterContext s4) = [False]"
      by (rule first_round_rejected)
    with e have "xf'" by (rule check_finds_rejected)
    moreover from g have "st' = RetryUtilsSuccess" by (cases st') simp_all
    ultimately have "prvMQTTSubscribeWithBackoffRetries_loop n ?env 1 True RetryUtilsSuccess s5 =
      Inr ((), s')" using f by simp
    then show False by (simp add: retry_stuck)
  qed
qed

section \<open>The session orchestrator: what survives an iteration\<close>

text \<open>
  C3 (as amended). After each completed session iteration of the orchestrator loop,
  started with one Topic Filter Context per topic, every Topic Filter Context success
  flag is false again, the topic filters are the ones of the start, and the shared
  buffer has the size of the start. The remembered subscribe and unsubscribe packet
  identifiers are not restored to the values of the start: whatever they were, they end
  as the two identifiers that the allocator issued during the iteration, which are the
  values that two successive calls of the allocator return from the state of the start;
  both are nonzero, and the counter ends as the unsubscribe identifier. With these
  values the next iteration starts.
\<close>

theorem prvMQTTDemoTask_iteration_state:
  assumes "prvMQTTDemoTask_iteration fuel env s = Inr ((), s')"
      and "length (xTopicFilterContext s) = mqttexampleTOPIC_COUNT"
  shows "list_all (\<lambda>c. xSubAckSuccess c = False) (xTopicFilterContext s') \<and>
         map pcTopicFilter (xTopicFilterContext s') = map pcTopicFilter (xTopicFilterContext s) \<and>
         length (ucSharedBuffer s') = length (ucSharedBuffer s) \<and>
         usSubscribePacketIdentifier s' \<noteq> 0 \<and>
         usUnsubscribePacketIdentifier s' \<noteq> 0 \<and>
         usUnsubscribePacketIdentifier s' = usPacketId s' \<and>
         prvGetNextPacketIdentifier_calls 2 s =
           Inr ([usSubscribePacketIdentifier s', usUnsubscribePacketIdentifier s'],
                s\<lparr>usPacketId := usPacketId s'\<rparr>)"
proof -
  note post = iteration_post[OF assms(1)]
  have "prvGetNextPacketIdentifier_calls (Suc (Suc 0)) s =
      Inr ([usSubscribePacketIdentifier s', usUnsubscribePacketIdentifier s'],
           s\<lparr>usPacketId := usPacketId s'\<rparr>)"
    using post by (simp add: bind_def prvGetNextPacketIdentifier_eq)
  then have "prvGetNextPacketIdentifier_calls 2 s =
      Inr ([usSubscribePacketIdentifier s', usUnsubscribePacketIdentifier s'],
           s\<lparr>usPacketId := usPacketId s'\<rparr>)"
    by (simp only: numeral_2_eq_2)
  with post assms(2) show ?thesis by blast
qed

text \<open>
  The theorem at the session of \<open>session_env\<close>, started in the initial state: the
  iteration completes, and its final state has the flag false and the remembered
  identifiers 1 and 2.
\<close>

theorem prvMQTTDemoTask_iteration_state_witness:
  "length (xTopicFilterContext (initial_state session_env)) = mqttexampleTOPIC_COUNT \<and>
   \<not> isl (prvMQTTDemoTask_iteration (Suc 0) session_env (initial_state session_env)) \<and>
   list_all (\<lambda>c. xSubAckSuccess c = False)
     (xTopicFilterContext
        (final (prvMQTTDemoTask_iteration (Suc 0) session_env (initial_state session_env)))) \<and>
   usSubscribePacketIdentifier
     (final (prvMQTTDemoTask_iteration (Suc 0) session_env (initial_state session_env))) \<noteq> 0 \<and>
   usUnsubscribePacketIdentifier
     (final (prvMQTTDemoTask_iteration (Suc 0) session_env (initial_state session_env))) =
   usPacketId
     (final (prvMQTTDemoTask_iteration (Suc 0) session_env (initial_state session_env))) \<and>
   prvGetNextPacketIdentifier_calls 2 (initial_state session_env) =
     Inr ([usSubscribePacketIdentifier
             (final (prvMQTTDemoTask_iteration (Suc 0) session_env (initial_state session_env))),
           usUnsubscribePacketIdentifier
             (final (prvMQTTDemoTask_iteration (Suc 0) session_env (initial_state session_env)))],
          (initial_state session_env)\<lparr>usPacketId := 2\<rparr>)"
proof -
  from map_sum_InrD[OF session_run] obtain t where
    run: "prvMQTTDemoTask_iteration (Suc 0) session_env (initial_state session_env) =
            Inr ((), t)"
    and t: "usPacketId t = 2"
    by (auto simp: session_view_def)
  have len: "length (xTopicFilterContext (initial_state session_env)) = mqttexampleTOPIC_COUNT"
    by (simp add: mqttexampleTOPIC_COUNT_def)
  from prvMQTTDemoTask_iteration_state[OF run len] show ?thesis
    by (simp add: run t mqttexampleTOPIC_COUNT_def allocator_calls_2 bind_def
          prvGetNextPacketIdentifier_eq)
qed

text \<open>
  The claim C3 as stated fails on this session: the iteration completes, and the
  remembered subscribe and unsubscribe identifiers, both 0 when the iteration starts,
  are 1 and 2 when it ends.
\<close>

theorem prvMQTTDemoTask_iteration_keeps_identifiers:
  "map_sum fst (\<lambda>(u, t). (usSubscribePacketIdentifier t, usUnsubscribePacketIdentifier t))
     (prvMQTTDemoTask_iteration (Suc 0) session_env (initial_state session_env)) =
     Inr (1, 2) \<and>
   usSubscribePacketIdentifier (initial_state session_env) = 0 \<and>
   usUnsubscribePacketIdentifier (initial_state session_env) = 0"
proof -
  from map_sum_InrD[OF session_run] obtain t where
    "prvMQTTDemoTask_iteration (Suc 0) session_env (initial_state session_env) = Inr ((), t)"
    "usSubscribePacketIdentifier t = 1" "usUnsubscribePacketIdentifier t = 2"
    by (auto simp: session_view_def)
  then show ?thesis by simp
qed

section \<open>The packet identifier allocator: the sequence of identifiers\<close>

text \<open>
  C4. For every number \<open>N\<close> of calls of the packet identifier allocator, from the initial
  state and from any other: the \<open>N\<close> calls return, no returned value is 0, each returned
  value is the successor of the value issued before it (for the first call: of the
  counter), except that the value returned after 65535 is 1, and the counter ends as
  the last value issued. The counter is process-wide, no session resets it:

  \<^item> a completed session iteration leaves the counter where two calls of the allocator
    from the state of its start leave it, the two identifiers issued being the
    remembered subscribe and unsubscribe identifiers; so the counter then holds the last
    identifier issued, which is not 0, and the next call of the allocator returns its
    successor (1 after 65535);

  \<^item> \<open>n\<close> completed session iterations in a row leave the counter where \<open>2 * n\<close> calls of
    the allocator from the state of the start leave it.
\<close>

theorem prvGetNextPacketIdentifier_sequence:
  "(\<exists>ids s'. prvGetNextPacketIdentifier_calls N s = Inr (ids, s') \<and> length ids = N \<and>
      0 \<notin> set ids \<and>
      (\<forall>i<N. ids ! i = (if (usPacketId s # ids) ! i = 65535 then 1
                         else (usPacketId s # ids) ! i + 1)) \<and>
      s' = s\<lparr>usPacketId := last (usPacketId s # ids)\<rparr>) \<and>
   (prvMQTTDemoTask_iteration fuel env u = Inr ((), u') \<longrightarrow>
      usPacketId u' \<noteq> 0 \<and> usPacketId u' = usUnsubscribePacketIdentifier u' \<and>
      prvGetNextPacketIdentifier_calls 1 u' =
        Inr ([if usPacketId u' = 65535 then 1 else usPacketId u' + 1],
             u'\<lparr>usPacketId := (if usPacketId u' = 65535 then 1 else usPacketId u' + 1)\<rparr>) \<and>
      prvGetNextPacketIdentifier_calls 2 u =
        Inr ([usSubscribePacketIdentifier u', usUnsubscribePacketIdentifier u'],
             u\<lparr>usPacketId := usPacketId u'\<rparr>)) \<and>
   (prvMQTTDemoTask n fuel env u = Inr ((), w) \<longrightarrow>
      usPacketId w = usPacketId (final (prvGetNextPacketIdentifier_calls (2 * n) u)))"
proof -
  have seq: "\<exists>ids s'. prvGetNextPacketIdentifier_calls N s = Inr (ids, s') \<and> length ids = N \<and>
      0 \<notin> set ids \<and>
      (\<forall>i<N. ids ! i = (if (usPacketId s # ids) ! i = 65535 then 1
                         else (usPacketId s # ids) ! i + 1)) \<and>
      s' = s\<lparr>usPacketId := last (usPacketId s # ids)\<rparr>"
    by (rule allocator_sequence)
  have session: "prvMQTTDemoTask_iteration fuel env u = Inr ((), u') \<longrightarrow>
      usPacketId u' \<noteq> 0 \<and> usPacketId u' = usUnsubscribePacketIdentifier u' \<and>
      prvGetNextPacketIdentifier_calls 1 u' =
        Inr ([if usPacketId u' = 65535 then 1 else usPacketId u' + 1],
             u'\<lparr>usPacketId := (if usPacketId u' = 65535 then 1 else usPacketId u' + 1)\<rparr>) \<and>
      prvGetNextPacketIdentifier_calls 2 u =
        Inr ([usSubscribePacketIdentifier u', usUnsubscribePacketIdentifier u'],
             u\<lparr>usPacketId := usPacketId u'\<rparr>)"
  proof
    assume run: "prvMQTTDemoTask_iteration fuel env u = Inr ((), u')"
    note post = iteration_post[OF run]
    have two: "prvGetNextPacketIdentifier_calls (Suc (Suc 0)) u =
        Inr ([usSubscribePacketIdentifier u', usUnsubscribePacketIdentifier u'],
             u\<lparr>usPacketId := usPacketId u'\<rparr>)"
      using post by (simp add: bind_def prvGetNextPacketIdentifier_eq)
    have one: "prvGetNextPacketIdentifier_calls 1 u' =
        Inr ([if usPacketId u' = 65535 then 1 else usPacketId u' + 1],
             u'\<lparr>usPacketId := (if usPacketId u' = 65535 then 1 else usPacketId u' + 1)\<rparr>)"
      by (simp add: bind_def prvGetNextPacketIdentifier_eq)
    from post have "usPacketId u' \<noteq> 0" "usPacketId u' = usUnsubscribePacketIdentifier u'"
      by auto
    with one two show "usPacketId u' \<noteq> 0 \<and> usPacketId u' = usUnsubscribePacketIdentifier u' \<and>
      prvGetNextPacketIdentifier_calls 1 u' =
        Inr ([if usPacketId u' = 65535 then 1 else usPacketId u' + 1],
             u'\<lparr>usPacketId := (if usPacketId u' = 65535 then 1 else usPacketId u' + 1)\<rparr>) \<and>
      prvGetNextPacketIdentifier_calls 2 u =
        Inr ([usSubscribePacketIdentifier u', usUnsubscribePacketIdentifier u'],
             u\<lparr>usPacketId := usPacketId u'\<rparr>)"
      by (simp only: numeral_2_eq_2 simp_thms)
  qed
  have sessions: "prvMQTTDemoTask n fuel env u = Inr ((), w) \<longrightarrow>
      usPacketId w = usPacketId (final (prvGetNextPacketIdentifier_calls (2 * n) u))"
    by (auto dest: demo_task_counter)
  from seq session sessions show ?thesis by blast
qed

text \<open>
  The theorem at three calls from the initial state, at three calls from the counter
  value 65534, and at the session of \<open>session_env\<close>: the identifiers are 1, 2, 3, then
  65535, 1, 2; the session leaves the counter at 2, where two calls from the initial
  state leave it, and the first identifier after the session is 3.
\<close>

theorem prvGetNextPacketIdentifier_sequence_witness:
  "prvGetNextPacketIdentifier_calls 3 (initial_state session_env) =
     Inr ([1, 2, 3], (initial_state session_env)\<lparr>usPacketId := 3\<rparr>) \<and>
   prvGetNextPacketIdentifier_calls 3 ((initial_state session_env)\<lparr>usPacketId := 65534\<rparr>) =
     Inr ([65535, 1, 2], (initial_state session_env)\<lparr>usPacketId := 2\<rparr>) \<and>
   \<not> isl (prvMQTTDemoTask_iteration (Suc 0) session_env (initial_state session_env)) \<and>
   \<not> isl (prvMQTTDemoTask (Suc 0) (Suc 0) session_env (initial_state session_env)) \<and>
   usPacketId (final (prvMQTTDemoTask (Suc 0) (Suc 0) session_env (initial_state session_env))) =
     2 \<and>
   prvGetNextPacketIdentifier_calls 2 (initial_state session_env) =
     Inr ([1, 2], (initial_state session_env)\<lparr>usPacketId := 2\<rparr>) \<and>
   map_sum fst fst
     (prvGetNextPacketIdentifier_calls 1
        (final (prvMQTTDemoTask_iteration (Suc 0) session_env (initial_state session_env)))) =
     Inr [3]"
proof -
  from map_sum_InrD[OF session_run] obtain t where
    run: "prvMQTTDemoTask_iteration (Suc 0) session_env (initial_state session_env) =
            Inr ((), t)"
    and t: "usPacketId t = 2"
    by (auto simp: session_view_def)
  have runs: "prvMQTTDemoTask (Suc 0) (Suc 0) session_env (initial_state session_env) =
            Inr ((), t)"
    by (simp add: bind_def run)
  from prvGetNextPacketIdentifier_sequence
         [where N = 3 and s = "initial_state session_env" and fuel = "Suc 0"
            and env = session_env and u = "initial_state session_env" and u' = t
            and n = "Suc 0" and w = t]
       prvGetNextPacketIdentifier_sequence
         [where N = 3 and s = "(initial_state session_env)\<lparr>usPacketId := 65534\<rparr>"
            and fuel = "Suc 0"
            and env = session_env and u = "initial_state session_env" and u' = t
            and n = "Suc 0" and w = t]
  show ?thesis
    by (simp add: run runs t numeral_3_eq_3 allocator_calls_2 bind_def prvGetNextPacketIdentifier_eq)
qed

section \<open>Subscribing with retries: a rejection followed by an acceptance\<close>

text \<open>
  C2. The broker of \<open>reject_then_accept_env\<close> answers the first SUBSCRIBE with a SUBACK
  of status \<open>0x80\<close> and the second with a SUBACK of status \<open>0x00\<close>. The claim says that
  \<open>prvMQTTSubscribeWithBackoffRetries\<close> then sends exactly two SUBSCRIBE packets and
  returns. It does not return:

  \<^item> when \<open>MQTT_DeserializeAck\<close> reports the rejection as \<open>MQTTServerRefused\<close>, the
    assertion of line 1181 fails on the first SUBACK, after one SUBSCRIBE;

  \<^item> when \<open>MQTT_DeserializeAck\<close> reports \<open>MQTTSuccess\<close> for it, the second SUBSCRIBE is
    accepted and the flag is set, but \<open>xFailedSubscribeToTopic\<close> stays true and the loop
    goes on: a third and a fourth SUBSCRIBE are sent within four rounds;

  \<^item> whatever \<open>MQTT_DeserializeAck\<close> reports and however many rounds are allowed, the
    function does not return.
\<close>

theorem prvMQTTSubscribeWithBackoffRetries_reject_then_accept:
  "prvMQTTSubscribeWithBackoffRetries (Suc (Suc 0)) (reject_then_accept_env lib_DeserializeAck) 1
     (initial_state (reject_then_accept_env lib_DeserializeAck)) =
   Inl (ConfigAssert 1181, (initial_state (reject_then_accept_env lib_DeserializeAck))
      \<lparr>usPacketId := 1, usSubscribePacketIdentifier := 1,
       ucSharedBuffer := [0, 1, 0x80, 1, 0, 1, 0x74, 0] @ replicate 492 0,
       calls := [C_LogInfo 831, C_FreeRTOS_send 1 [0x82, 6, 0, 1, 0, 1, 0x74, 0], C_LogInfo 834,
                 C_MQTT_GetIncomingPacketTypeAndLength 1, C_FreeRTOS_recv 1 3]\<rparr>) \<and>
   prvMQTTSubscribeWithBackoffRetries (Suc (Suc (Suc (Suc 0))))
     (reject_then_accept_env lenient_DeserializeAck) 1
     (initial_state (reject_then_accept_env lenient_DeserializeAck)) =
   Inl (OutOfFuel, (initial_state (reject_then_accept_env lenient_DeserializeAck))
      \<lparr>usPacketId := 4, usSubscribePacketIdentifier := 4,
       ucSharedBuffer := [0x82, 6, 0, 4, 0, 1, 0x74, 0] @ replicate 492 0,
       calls :=
         [C_LogInfo 831, C_FreeRTOS_send 1 [0x82, 6, 0, 1, 0, 1, 0x74, 0], C_LogInfo 834,
          C_MQTT_GetIncomingPacketTypeAndLength 1, C_FreeRTOS_recv 1 3,
          C_LogWarn 853, C_RetryUtils_BackoffAndSleep,
          C_LogInfo 831, C_FreeRTOS_send 1 [0x82, 6, 0, 2, 0, 1, 0x74, 0], C_LogInfo 834,
          C_MQTT_GetIncomingPacketTypeAndLength 1, C_FreeRTOS_recv 1 3, C_LogInfo 1063,
          C_LogInfo 831, C_FreeRTOS_send 1 [0x82, 6, 0, 3, 0, 1, 0x74, 0], C_LogInfo 834,
          C_MQTT_GetIncomingPacketTypeAndLength 1,
          C_LogInfo 831, C_FreeRTOS_send 1 [0x82, 6, 0, 4, 0, 1, 0x74, 0], C_LogInfo 834,
          C_MQTT_GetIncomingPacketTypeAndLength 1],
       xTopicFilterContext := [\<lparr>pcTopicFilter = [0x74], xSubAckSuccess = True\<rparr>]\<rparr>) \<and>
   (\<forall>deserializeAck fuel.
      isl (prvMQTTSubscribeWithBackoffRetries fuel (reject_then_accept_env deserializeAck) 1
             (initial_state (reject_then_accept_env deserializeAck))))"
proof (intro conjI allI)
  show "prvMQTTSubscribeWithBackoffRetries (Suc (Suc 0))
     (reject_then_accept_env lib_DeserializeAck) 1
     (initial_state (reject_then_accept_env lib_DeserializeAck)) =
   Inl (ConfigAssert 1181, (initial_state (reject_then_accept_env lib_DeserializeAck))
      \<lparr>usPacketId := 1, usSubscribePacketIdentifier := 1,
       ucSharedBuffer := [0, 1, 0x80, 1, 0, 1, 0x74, 0] @ replicate 492 0,
       calls := [C_LogInfo 831, C_FreeRTOS_send 1 [0x82, 6, 0, 1, 0, 1, 0x74, 0], C_LogInfo 834,
                 C_MQTT_GetIncomingPacketTypeAndLength 1, C_FreeRTOS_recv 1 3]\<rparr>)"
    by (simp add: reject_then_accept_env_def prvMQTTSubscribeWithBackoffRetries_def retry_defs
          lib_DeserializeAck_def packet_id_of_def)
next
  show "prvMQTTSubscribeWithBackoffRetries (Suc (Suc (Suc (Suc 0))))
     (reject_then_accept_env lenient_DeserializeAck) 1
     (initial_state (reject_then_accept_env lenient_DeserializeAck)) =
   Inl (OutOfFuel, (initial_state (reject_then_accept_env lenient_DeserializeAck))
      \<lparr>usPacketId := 4, usSubscribePacketIdentifier := 4,
       ucSharedBuffer := [0x82, 6, 0, 4, 0, 1, 0x74, 0] @ replicate 492 0,
       calls :=
         [C_LogInfo 831, C_FreeRTOS_send 1 [0x82, 6, 0, 1, 0, 1, 0x74, 0], C_LogInfo 834,
          C_MQTT_GetIncomingPacketTypeAndLength 1, C_FreeRTOS_recv 1 3,
          C_LogWarn 853, C_RetryUtils_BackoffAndSleep,
          C_LogInfo 831, C_FreeRTOS_send 1 [0x82, 6, 0, 2, 0, 1, 0x74, 0], C_LogInfo 834,
          C_MQTT_GetIncomingPacketTypeAndLength 1, C_FreeRTOS_recv 1 3, C_LogInfo 1063,
          C_LogInfo 831, C_FreeRTOS_send 1 [0x82, 6, 0, 3, 0, 1, 0x74, 0], C_LogInfo 834,
          C_MQTT_GetIncomingPacketTypeAndLength 1,
          C_LogInfo 831, C_FreeRTOS_send 1 [0x82, 6, 0, 4, 0, 1, 0x74, 0], C_LogInfo 834,
          C_MQTT_GetIncomingPacketTypeAndLength 1],
       xTopicFilterContext := [\<lparr>pcTopicFilter = [0x74], xSubAckSuccess = True\<rparr>]\<rparr>)"
    by (simp add: reject_then_accept_env_def prvMQTTSubscribeWithBackoffRetries_def retry_defs
          lenient_DeserializeAck_def lib_DeserializeAck_def packet_id_of_def)
next
  fix deserializeAck fuel
  show "isl (prvMQTTSubscribeWithBackoffRetries fuel (reject_then_accept_env deserializeAck) 1
             (initial_state (reject_then_accept_env deserializeAck)))"
    by (rule reject_first_never_returns)
qed

end
